theory Spec2Isabelle
  imports Complex_Main
begin

section \<open>The observer channel (src/utils/callback.ts)\<close>

text \<open>
  A \<open>Callback\<close> holds an array of listener references. Listeners are compared by
  reference (\<open>f !== fn\<close>), so a listener is a value of a type \<open>'f\<close> of references with
  HOL equality as reference identity. Firing calls every listener of the array in array
  order with the payload; the model returns the calls made, in the order they are made.
\<close>

record 'f Callback =
  callbacks :: "'f list"

definition newCallback :: "'f Callback" where
  "newCallback = \<lparr>callbacks = []\<rparr>"

definition fire :: "'f Callback \<Rightarrow> 'e \<Rightarrow> ('f \<times> 'e) list" where
  "fire c event = map (\<lambda>cb. (cb, event)) (callbacks c)"

definition add :: "'f \<Rightarrow> 'f Callback \<Rightarrow> 'f Callback" where
  "add fn c = c\<lparr>callbacks := callbacks c @ [fn]\<rparr>"

definition remove :: "'f \<Rightarrow> 'f Callback \<Rightarrow> 'f Callback" where
  "remove fn c = c\<lparr>callbacks := filter (\<lambda>f. f \<noteq> fn) (callbacks c)\<rparr>"

section \<open>The collaborators of the controller\<close>

text \<open>
  Corners, walls and items are objects handled by reference; a reference is a natural
  number, and the fields of the objects the controller reads live in a store that is
  part of the floorplan model.
\<close>

type_synonym Corner = nat
type_synonym Wall = nat
type_synonym Item = nat

text \<open>
  Modelled from the spec: the enumeration \<open>FloorplanMode\<close> (floorplan-mode.enum) is not
  among the sources; the spec gives its values as MOVE, DRAW and DELETE.
\<close>

datatype FloorplanMode = MOVE | DRAW | DELETE

text \<open>
  Modelled from the spec: the class \<open>FloorplanModel\<close> and the entity classes \<open>Corner\<close>,
  \<open>Wall\<close> and \<open>Item\<close> are not among the sources. The spec names what the controller
  consumes from them: the corner, wall and item collections, the selected item, a
  corner's two coordinates and a wall's two end corners.
\<close>

record FloorplanModel =
  corners :: "Corner list"
  walls :: "Wall list"
  items :: "Item list"
  selectedItem :: "Item option"
  cornerX :: "Corner \<Rightarrow> real"
  cornerY :: "Corner \<Rightarrow> real"
  wallStart :: "Wall \<Rightarrow> Corner"
  wallEnd :: "Wall \<Rightarrow> Corner"

definition getItems :: "FloorplanModel \<Rightarrow> Item list" where
  "getItems m = items m"

definition getWalls :: "FloorplanModel \<Rightarrow> Wall list" where
  "getWalls m = walls m"

definition getStart :: "FloorplanModel \<Rightarrow> Wall \<Rightarrow> Corner" where
  "getStart m w = wallStart m w"

definition getEnd :: "FloorplanModel \<Rightarrow> Wall \<Rightarrow> Corner" where
  "getEnd m w = wallEnd m w"

definition getSelectedItem :: "FloorplanModel \<Rightarrow> Item option" where
  "getSelectedItem m = selectedItem m"

text \<open>
  Modelled from the spec: \<open>FloorplanModel.setSelectedItem\<close> is not among the sources.
  The spec: "sets the model's selected item to the active item (or clears selection)" and
  "clears model selection" for the call with \<open>null\<close>. The second argument of the call in
  the release handler has no meaning the spec gives; it is carried and ignored.
\<close>

definition setSelectedItem :: "Item option \<Rightarrow> bool \<Rightarrow> FloorplanModel \<Rightarrow> FloorplanModel" where
  "setSelectedItem item flag m = m\<lparr>selectedItem := item\<rparr>"

text \<open>
  Modelled from the spec: \<open>Corner.removeAll\<close>, \<open>Wall.remove\<close> and \<open>Item.remove\<close> are not
  among the sources. The spec: in DELETE mode the press "removes whichever entity
  (corner/wall/item) is currently active", and for a corner "corner and all its connected
  walls are removed"; a wall is "a line segment between two corners", so the walls
  connected to a corner are those that start or end at it.
\<close>

definition Wall_remove :: "Wall \<Rightarrow> FloorplanModel \<Rightarrow> FloorplanModel" where
  "Wall_remove w m = m\<lparr>walls := removeAll w (walls m)\<rparr>"

definition Corner_removeAll :: "Corner \<Rightarrow> FloorplanModel \<Rightarrow> FloorplanModel" where
  "Corner_removeAll c m =
     m\<lparr>corners := removeAll c (corners m),
       walls := filter (\<lambda>w. wallStart m w \<noteq> c \<and> wallEnd m w \<noteq> c) (walls m)\<rparr>"

definition Item_remove :: "Item \<Rightarrow> FloorplanModel \<Rightarrow> FloorplanModel" where
  "Item_remove i m = m\<lparr>items := removeAll i (items m)\<rparr>"

text \<open>
  The remaining operations of the absent classes (hit-testing, the items' own pointer
  handling, moving and snapping of corners and walls, creation and merging of corners,
  the centre of the geometry) are parameters of the controller: a function of the model
  that returns the call's result and the model after the call.
\<close>

record Collaborators =
  overlappedItem :: "FloorplanModel \<Rightarrow> real \<Rightarrow> real \<Rightarrow> Item option"
  overlappedCorner :: "FloorplanModel \<Rightarrow> real \<Rightarrow> real \<Rightarrow> Corner option"
  overlappedWall :: "FloorplanModel \<Rightarrow> real \<Rightarrow> real \<Rightarrow> Wall option"
  Item_mousedown :: "Item \<Rightarrow> real \<Rightarrow> real \<Rightarrow> FloorplanModel \<Rightarrow> FloorplanModel"
  Item_mousemove :: "Item \<Rightarrow> real \<Rightarrow> real \<Rightarrow> real \<Rightarrow> real \<Rightarrow> FloorplanModel \<Rightarrow> bool \<times> FloorplanModel"
  Item_mouseup :: "Item \<Rightarrow> real \<Rightarrow> real \<Rightarrow> FloorplanModel \<Rightarrow> bool \<times> FloorplanModel"
  Item_relativeMove :: "Item \<Rightarrow> real \<Rightarrow> real \<Rightarrow> FloorplanModel \<Rightarrow> FloorplanModel"
  Corner_move :: "Corner \<Rightarrow> real \<Rightarrow> real \<Rightarrow> FloorplanModel \<Rightarrow> FloorplanModel"
  Corner_snapToAxis :: "Corner \<Rightarrow> real \<Rightarrow> FloorplanModel \<Rightarrow> FloorplanModel"
  Corner_mergeWithIntersected :: "Corner \<Rightarrow> FloorplanModel \<Rightarrow> bool \<times> FloorplanModel"
  Wall_relativeMove :: "Wall \<Rightarrow> real \<Rightarrow> real \<Rightarrow> FloorplanModel \<Rightarrow> FloorplanModel"
  Wall_snapToAxis :: "Wall \<Rightarrow> real \<Rightarrow> FloorplanModel \<Rightarrow> FloorplanModel"
  newCorner :: "real \<Rightarrow> real \<Rightarrow> FloorplanModel \<Rightarrow> Corner \<times> FloorplanModel"
  newWall :: "Corner \<Rightarrow> Corner \<Rightarrow> FloorplanModel \<Rightarrow> FloorplanModel"
  getCenter :: "FloorplanModel \<Rightarrow> real \<times> real"

text \<open>The bounding rectangle of the canvas element and the pointer event, as the browser gives them.\<close>

record DOMRect =
  rect_left :: real
  rect_top :: real
  rect_width :: real
  rect_height :: real

record MouseEvent =
  clientX :: real
  clientY :: real

section \<open>The controller state (src/unnamed/part_000)\<close>

text \<open>
  Coordinates are JavaScript numbers. The model takes the finite numbers as \<open>real\<close>s
  and computes the pointer position and the conversions in exact arithmetic. The one
  comparison of a computed difference with a constant, in \<open>updateTarget\<close>, is made on
  the difference as binary64 arithmetic delivers it: rounded to the nearest number of 53
  significant bits, a tie going to the even one (\<open>fl64\<close> below).
\<close>

definition snapTolerance :: real where
  "snapTolerance = 25"

definition cmPerFoot :: real where
  "cmPerFoot = 30.48"

definition pixelsPerFoot :: real where
  "pixelsPerFoot = 15.0"

definition cmPerPixel :: real where
  "cmPerPixel = cmPerFoot * (1.0 / pixelsPerFoot)"

definition pixelsPerCm :: real where
  "pixelsPerCm = 1.0 / cmPerPixel"

text \<open>
  What the controller does to the outside, in the order it does it: a redraw request to
  the view, a resize request to the view, a call of the debounced emitter
  \<open>emitChanges\<close>, a call of \<open>onModeChange.fire\<close> with its payload, and the calls of
  \<open>startActive\<close> and \<open>endActive\<close> on an item.
\<close>

datatype Effect =
    ViewDraw
  | ViewHandleWindowResize
  | EmitChanges
  | OnModeChangeFire FloorplanMode
  | ItemStartActive Item
  | ItemEndActive Item

record FloorplanController =
  mode :: FloorplanMode
  activeWall :: "Wall option"
  activeCorner :: "Corner option"
  activeItemIndex :: "nat option"
  originX :: real
  originY :: real
  targetX :: real
  targetY :: real
  lastNode :: "Corner option"
  mouseDown :: bool
  mouseMoved :: bool
  mouseX :: real
  mouseY :: real
  lastX :: real
  lastY :: real
  lastRawX :: real
  lastRawY :: real
  floorplan :: FloorplanModel
  canvasElement :: DOMRect
  effects :: "Effect list"

definition effect :: "Effect \<Rightarrow> FloorplanController \<Rightarrow> FloorplanController" where
  "effect e s = s\<lparr>effects := effects s @ [e]\<rparr>"

definition view_draw :: "FloorplanController \<Rightarrow> FloorplanController" where
  "view_draw s = effect ViewDraw s"

definition emitChanges :: "FloorplanController \<Rightarrow> FloorplanController" where
  "emitChanges s = effect EmitChanges s"

subsection \<open>The active item: a stored index with a getter and a setter\<close>

text \<open>
  The getter reads \<open>getItems()[_activeItemIndex]\<close>: \<open>null\<close> when no index is stored,
  \<open>undefined\<close> when the stored index is beyond the item array, the item otherwise. The
  three outcomes are kept apart because the handlers compare the getter's result with
  \<open>!==\<close>, which tells \<open>null\<close> from \<open>undefined\<close>.
\<close>

datatype ItemRef = Null | Undefined | Obj Item

fun ofOption :: "Item option \<Rightarrow> ItemRef" where
  "ofOption None = Null"
| "ofOption (Some i) = Obj i"

fun truthy :: "ItemRef \<Rightarrow> bool" where
  "truthy (Obj i) = True"
| "truthy Null = False"
| "truthy Undefined = False"

definition activeItem :: "FloorplanController \<Rightarrow> ItemRef" where
  "activeItem s =
     (case activeItemIndex s of
        None \<Rightarrow> Null
      | Some ix \<Rightarrow>
          if ix < length (getItems (floorplan s)) then Obj (getItems (floorplan s) ! ix)
          else Undefined)"

text \<open>\<open>Array.prototype.indexOf\<close>: the first index holding the value, \<open>-1\<close> when there is none.\<close>

fun indexOfFrom :: "'a list \<Rightarrow> 'a \<Rightarrow> int \<Rightarrow> int" where
  "indexOfFrom [] v i = - 1"
| "indexOfFrom (x # xs) v i = (if x = v then i else indexOfFrom xs v (i + 1))"

definition indexOf :: "Item list \<Rightarrow> Item option \<Rightarrow> int" where
  "indexOf xs item = (case item of None \<Rightarrow> - 1 | Some v \<Rightarrow> indexOfFrom xs v 0)"

definition set_activeItem :: "Item option \<Rightarrow> FloorplanController \<Rightarrow> FloorplanController" where
  "set_activeItem item s =
     (let current = activeItem s;
          s1 = (if ofOption item \<noteq> current then
                  (let s0 = (case current of Obj a \<Rightarrow> effect (ItemEndActive a) s | _ \<Rightarrow> s)
                   in case item of Some i \<Rightarrow> effect (ItemStartActive i) s0 | None \<Rightarrow> s0)
                else s);
          index = indexOf (getItems (floorplan s1)) item
      in s1\<lparr>activeItemIndex := (if index \<ge> 0 then Some (nat index) else None)\<rparr>)"

subsection \<open>Draw target and mode\<close>

text \<open>
  Rounding to the nearest integer, a tie going to the even neighbour.
\<close>

definition roundTiesToEven :: "real \<Rightarrow> int" where
  "roundTiesToEven r =
     (let f = \<lfloor>r\<rfloor>
      in if r - of_int f < 1 / 2 then f
         else if r - of_int f > 1 / 2 then f + 1
         else if even f then f else f + 1)"

text \<open>
  The binary64 result of an operation whose exact result is \<open>x\<close>: the nearest multiple
  of the spacing of the numbers around \<open>x\<close>, which is \<open>2\<close> to the power of the binary
  exponent of \<open>x\<close> less 52, and \<open>2\<close> to the \<open>-1074\<close> below the smallest normal number.
  A result beyond the largest finite number is \<open>Infinity\<close> in the source; the model
  keeps the rounded finite value there, which like \<open>Infinity\<close> is not below any
  tolerance.
\<close>

definition fl64 :: "real \<Rightarrow> real" where
  "fl64 x =
     (if x = 0 then 0
      else
        (let e = max \<lfloor>log 2 \<bar>x\<bar>\<rfloor> (- 1022);
             q = 2 powr (of_int e - 52)
         in sgn x * of_int (roundTiesToEven (\<bar>x\<bar> / q)) * q))"

definition updateTarget :: "FloorplanController \<Rightarrow> FloorplanController" where
  "updateTarget s =
     (case (if mode s = DRAW then lastNode s else None) of
        Some n \<Rightarrow>
          (let s1 = (if \<bar>fl64 (mouseX s - cornerX (floorplan s) n)\<bar> < snapTolerance
                     then s\<lparr>targetX := cornerX (floorplan s) n\<rparr>
                     else s\<lparr>targetX := mouseX s\<rparr>)
           in if \<bar>fl64 (mouseY s1 - cornerY (floorplan s1) n)\<bar> < snapTolerance
              then s1\<lparr>targetY := cornerY (floorplan s1) n\<rparr>
              else s1\<lparr>targetY := mouseY s1\<rparr>)
      | None \<Rightarrow> s\<lparr>targetX := mouseX s, targetY := mouseY s\<rparr>)"

definition setMode :: "FloorplanMode \<Rightarrow> FloorplanController \<Rightarrow> FloorplanController" where
  "setMode newMode s =
     (let s1 = s\<lparr>activeWall := None\<rparr>;
          s2 = s1\<lparr>activeCorner := None\<rparr>;
          s3 = set_activeItem None s2;
          s4 = s3\<lparr>lastNode := None\<rparr>;
          s5 = s4\<lparr>floorplan := setSelectedItem None False (floorplan s4)\<rparr>;
          s6 = s5\<lparr>mode := newMode\<rparr>;
          s7 = updateTarget s6
      in effect (OnModeChangeFire newMode) s7)"

definition escapeKey :: "FloorplanController \<Rightarrow> FloorplanController" where
  "escapeKey s = setMode MOVE s"

subsection \<open>Duplicate walls\<close>

text \<open>
  The test of the inner loop body on \<open>walls[i]\<close> and \<open>walls[k]\<close>.
\<close>

definition isDuplicate :: "FloorplanModel \<Rightarrow> Wall \<Rightarrow> Wall \<Rightarrow> bool" where
  "isDuplicate m wall wallCheck =
     (wall \<noteq> wallCheck \<and>
      ((getEnd m wall = getEnd m wallCheck \<and> getStart m wall = getStart m wallCheck) \<or>
       (getEnd m wall = getStart m wallCheck \<and> getStart m wall = getEnd m wallCheck)))"

text \<open>
  The inner loop runs \<open>k\<close> over the walls after \<open>walls[i]\<close>; the outer loop runs \<open>i\<close>
  over the array. Both push onto \<open>duplicates\<close>, which is threaded through.
\<close>

fun checkInner :: "FloorplanModel \<Rightarrow> Wall \<Rightarrow> Wall list \<Rightarrow> Wall list \<Rightarrow> Wall list" where
  "checkInner m wall [] duplicates = duplicates"
| "checkInner m wall (wallCheck # rest) duplicates =
     checkInner m wall rest
       (if isDuplicate m wall wallCheck then duplicates @ [wallCheck] else duplicates)"

fun checkOuter :: "FloorplanModel \<Rightarrow> Wall list \<Rightarrow> Wall list \<Rightarrow> Wall list" where
  "checkOuter m [] duplicates = duplicates"
| "checkOuter m (wall # rest) duplicates = checkOuter m rest (checkInner m wall rest duplicates)"

fun removeEach :: "Wall list \<Rightarrow> FloorplanModel \<Rightarrow> FloorplanModel" where
  "removeEach [] m = m"
| "removeEach (wall # rest) m = removeEach rest (Wall_remove wall m)"

definition checkWallDuplicates :: "FloorplanController \<Rightarrow> FloorplanController" where
  "checkWallDuplicates s =
     (let duplicates = checkOuter (floorplan s) (getWalls (floorplan s)) []
      in s\<lparr>floorplan := removeEach duplicates (floorplan s)\<rparr>)"

subsection \<open>Pointer press\<close>

definition mousedown :: "Collaborators \<Rightarrow> MouseEvent \<Rightarrow> FloorplanController \<Rightarrow> FloorplanController" where
  "mousedown ext event s0 =
     (let s = s0\<lparr>mouseDown := True, mouseMoved := False,
                 lastX := mouseX s0, lastY := mouseY s0,
                 lastRawX := clientX event, lastRawY := clientY event\<rparr>;
          selected = getSelectedItem (floorplan s);
          s1 = (if mode s = DELETE then
                  (case activeCorner s of
                     Some c \<Rightarrow> emitChanges (s\<lparr>floorplan := Corner_removeAll c (floorplan s)\<rparr>)
                   | None \<Rightarrow>
                      (case activeWall s of
                         Some w \<Rightarrow> emitChanges (s\<lparr>floorplan := Wall_remove w (floorplan s)\<rparr>)
                       | None \<Rightarrow>
                          (case activeItem s of
                             Obj i \<Rightarrow> emitChanges (s\<lparr>floorplan := Item_remove i (floorplan s)\<rparr>)
                           | _ \<Rightarrow> setMode MOVE s)))
                else
                  (case selected of
                     Some it \<Rightarrow> s\<lparr>floorplan := Item_mousedown ext it (mouseX s) (mouseY s) (floorplan s)\<rparr>
                   | None \<Rightarrow> s))
      in view_draw s1)"

subsection \<open>Pointer move\<close>

text \<open>The handler in the order of its blocks; each block is a function of its own.\<close>

definition updateMouse :: "MouseEvent \<Rightarrow> FloorplanController \<Rightarrow> FloorplanController" where
  "updateMouse event s =
     (let s1 = s\<lparr>mouseMoved := True\<rparr>;
          s2 = s1\<lparr>mouseX := (clientX event - rect_left (canvasElement s1)) * cmPerPixel
                              + originX s1 * cmPerPixel\<rparr>
      in s2\<lparr>mouseY := (clientY event - rect_top (canvasElement s2)) * cmPerPixel
                          + originY s2 * cmPerPixel\<rparr>)"

definition updateObjectTarget :: "Collaborators \<Rightarrow> FloorplanController \<Rightarrow> FloorplanController" where
  "updateObjectTarget ext s =
     (let hoverItem = overlappedItem ext (floorplan s) (mouseX s) (mouseY s);
          draw0 = (ofOption hoverItem \<noteq> activeItem s);
          (s3, draw) =
            (case hoverItem of
               Some h \<Rightarrow>
                 ((set_activeItem hoverItem s)\<lparr>activeCorner := None, activeWall := None\<rparr>, draw0)
             | None \<Rightarrow>
                 (let sa = set_activeItem None s;
                      hoverCorner = overlappedCorner ext (floorplan sa) (mouseX sa) (mouseY sa);
                      hoverWall = overlappedWall ext (floorplan sa) (mouseX sa) (mouseY sa);
                      (sb, draw1) = (if hoverCorner \<noteq> activeCorner sa
                                     then (sa\<lparr>activeCorner := hoverCorner\<rparr>, True)
                                     else (sa, draw0))
                  in if activeCorner sb = None then
                       (if hoverWall \<noteq> activeWall sb
                        then (sb\<lparr>activeWall := hoverWall\<rparr>, True)
                        else (sb, draw1))
                     else (sb\<lparr>activeWall := None\<rparr>, draw1)))
      in if draw then view_draw s3 else s3)"

definition panning :: "MouseEvent \<Rightarrow> FloorplanController \<Rightarrow> FloorplanController" where
  "panning event s =
     (if mouseDown s \<and> activeCorner s = None \<and> activeWall s = None \<and> \<not> truthy (activeItem s)
      then
        (let s1 = s\<lparr>originX := originX s - (clientX event - lastRawX s)\<rparr>;
             s2 = s1\<lparr>originY := originY s1 - (clientY event - lastRawY s1)\<rparr>;
             s3 = s2\<lparr>lastRawX := clientX event, lastRawY := clientY event\<rparr>
         in view_draw s3)
      else s)"

text \<open>
  The branches of the drag after the first: the relative move of the active item, else
  the move of the active corner, else the relative move of the active wall.
\<close>

definition dragActive :: "Collaborators \<Rightarrow> FloorplanController \<Rightarrow> FloorplanController" where
  "dragActive ext s =
     (case activeItem s of
        Obj a \<Rightarrow>
          emitChanges (s\<lparr>floorplan :=
            Item_relativeMove ext a (mouseX s - lastX s) (mouseY s - lastY s) (floorplan s)\<rparr>)
      | _ \<Rightarrow>
        (case activeCorner s of
           Some c \<Rightarrow>
             (let s1 = s\<lparr>floorplan := Corner_move ext c (mouseX s) (mouseY s) (floorplan s)\<rparr>;
                  s2 = s1\<lparr>floorplan := Corner_snapToAxis ext c snapTolerance (floorplan s1)\<rparr>
              in emitChanges (checkWallDuplicates s2))
         | None \<Rightarrow>
            (case activeWall s of
               Some w \<Rightarrow>
                 (let s1 = s\<lparr>floorplan :=
                        Wall_relativeMove ext w (mouseX s - lastX s) (mouseY s - lastY s) (floorplan s)\<rparr>;
                      s2 = s1\<lparr>floorplan := Wall_snapToAxis ext w snapTolerance (floorplan s1)\<rparr>
                  in emitChanges (checkWallDuplicates s2))
             | None \<Rightarrow> s)))"

definition dragging :: "Collaborators \<Rightarrow> Item option \<Rightarrow> FloorplanController \<Rightarrow> FloorplanController" where
  "dragging ext selected s =
     (if mode s = MOVE \<and> mouseDown s then
        (let s1 =
               (case selected of
                  Some it \<Rightarrow>
                    (if Obj it = activeItem s then
                       (let (moved, m) = Item_mousemove ext it (mouseX s) (mouseY s) (lastX s) (lastY s)
                                           (floorplan s);
                            sm = s\<lparr>floorplan := m\<rparr>
                        in if moved then emitChanges sm else dragActive ext sm)
                     else dragActive ext s)
                | None \<Rightarrow> dragActive ext s);
             s2 = s1\<lparr>lastX := mouseX s1\<rparr>;
             s3 = s2\<lparr>lastY := mouseY s2\<rparr>
         in view_draw s3)
      else s)"

definition mousemove :: "Collaborators \<Rightarrow> MouseEvent \<Rightarrow> FloorplanController \<Rightarrow> FloorplanController" where
  "mousemove ext event s0 =
     (let s1 = updateMouse event s0;
          selected = getSelectedItem (floorplan s1);
          s2 = (if mode s1 = DRAW \<or> (mode s1 = MOVE \<and> mouseDown s1)
                then view_draw (updateTarget s1) else s1);
          s3 = (if mode s2 \<noteq> DRAW \<and> \<not> mouseDown s2 then updateObjectTarget ext s2 else s2);
          s4 = panning event s3
      in dragging ext selected s4)"

subsection \<open>Pointer release and leave\<close>

text \<open>The handler in the order of its blocks, as for the move.\<close>

definition releaseSelected :: "Collaborators \<Rightarrow> FloorplanController \<Rightarrow> FloorplanController" where
  "releaseSelected ext s =
     (case getSelectedItem (floorplan s) of
        Some it \<Rightarrow>
          (let (changed, m) = Item_mouseup ext it (mouseX s) (mouseY s) (floorplan s);
               sm = s\<lparr>floorplan := m\<rparr>
           in if changed then emitChanges (view_draw sm) else sm)
      | None \<Rightarrow> s)"

definition drawing :: "Collaborators \<Rightarrow> FloorplanController \<Rightarrow> FloorplanController" where
  "drawing ext s =
     (let (corner, m1) = newCorner ext (targetX s) (targetY s) (floorplan s);
          m2 = (case lastNode s of Some n \<Rightarrow> newWall ext n corner m1 | None \<Rightarrow> m1);
          (merged, m3) = Corner_mergeWithIntersected ext corner m2;
          s3 = s\<lparr>floorplan := m3\<rparr>;
          s4 = (if merged \<and> lastNode s3 \<noteq> None then setMode MOVE s3 else s3);
          s5 = s4\<lparr>lastNode := Some corner\<rparr>;
          s6 = checkWallDuplicates s5;
          s7 = view_draw s6
      in emitChanges s7)"

definition selectActive :: "FloorplanController \<Rightarrow> FloorplanController" where
  "selectActive s =
     (let s1 = (case activeItem s of
                  Obj a \<Rightarrow> s\<lparr>floorplan := setSelectedItem (Some a) True (floorplan s)\<rparr>
                | _ \<Rightarrow> s\<lparr>floorplan := setSelectedItem None True (floorplan s)\<rparr>)
      in view_draw s1)"

definition mouseup :: "Collaborators \<Rightarrow> FloorplanController \<Rightarrow> FloorplanController" where
  "mouseup ext s0 =
     (let s1 = s0\<lparr>mouseDown := False\<rparr>;
          s2 = releaseSelected ext s1
      in if mode s2 = DRAW \<and> \<not> mouseMoved s2 then drawing ext s2
         else if \<not> mouseMoved s2 \<and> mode s2 = MOVE then selectActive s2
         else s2)"

definition mouseleave :: "FloorplanController \<Rightarrow> FloorplanController" where
  "mouseleave s =
     (let s1 = s\<lparr>mouseDown := False\<rparr>;
          s2 = s1\<lparr>activeCorner := None\<rparr>;
          s3 = s2\<lparr>activeWall := None\<rparr>;
          s4 = set_activeItem None s3
      in view_draw s4)"

subsection \<open>View origin and coordinate conversion\<close>

definition resetOrigin :: "Collaborators \<Rightarrow> FloorplanController \<Rightarrow> FloorplanController" where
  "resetOrigin ext s =
     (let centerX = rect_width (canvasElement s) / 2.0;
          centerY = rect_height (canvasElement s) / 2.0;
          centerFloorplan = getCenter ext (floorplan s);
          s1 = s\<lparr>originX := fst centerFloorplan * pixelsPerCm - centerX\<rparr>
      in s1\<lparr>originY := snd centerFloorplan * pixelsPerCm - centerY\<rparr>)"

definition reset :: "Collaborators \<Rightarrow> FloorplanController \<Rightarrow> FloorplanController" where
  "reset ext s =
     (let s1 = effect ViewHandleWindowResize s;
          s2 = setMode MOVE s1;
          s3 = resetOrigin ext s2
      in view_draw s3)"

definition convertX :: "FloorplanController \<Rightarrow> real \<Rightarrow> real" where
  "convertX s x = (x - originX s * cmPerPixel) * pixelsPerCm"

definition convertY :: "FloorplanController \<Rightarrow> real \<Rightarrow> real" where
  "convertY s y = (y - originY s * cmPerPixel) * pixelsPerCm"

subsection \<open>Construction\<close>

text \<open>
  The field initialisers followed by the constructor's \<open>setMode(FloorplanMode.MOVE)\<close>.
  The field \<open>mode\<close> starts as the number \<open>0\<close>; \<open>setMode\<close> writes it before anything
  reads it, so the initial value of the model's field is not observable.
\<close>

definition newController :: "DOMRect \<Rightarrow> FloorplanModel \<Rightarrow> FloorplanController" where
  "newController canvas fp =
     setMode MOVE
       \<lparr>mode = MOVE, activeWall = None, activeCorner = None, activeItemIndex = None,
        originX = 0, originY = 0, targetX = 0, targetY = 0, lastNode = None,
        mouseDown = False, mouseMoved = False, mouseX = 0, mouseY = 0,
        lastX = 0, lastY = 0, lastRawX = 0, lastRawY = 0,
        floorplan = fp, canvasElement = canvas, effects = []\<rparr>"

section \<open>The debounced emitter\<close>

text \<open>
  Modelled from the spec: the function \<open>debounce\<close> that wraps \<open>fireChanges\<close> into
  \<open>emitChanges\<close> comes from a package that is not among the sources. The spec: "a
  cancellable deferred timer: arm on each mutation, cancel prior pending timer, fire once
  the quiet interval elapses", and "only one change notification can be in flight, and
  scheduling a new one implicitly cancels any pending one". The emitter holds at most one
  timer, by its deadline; times are in milliseconds, and \<open>notifications\<close> lists the
  times at which the wrapped function has run. The quiet interval \<open>wait\<close> is a parameter.
\<close>

record Debounced =
  timer :: "nat option"
  notifications :: "nat list"

definition idle :: Debounced where
  "idle = \<lparr>timer = None, notifications = []\<rparr>"

text \<open>Time passes to \<open>now\<close>: a timer whose deadline has come runs the wrapped function.\<close>

definition elapse :: "nat \<Rightarrow> Debounced \<Rightarrow> Debounced" where
  "elapse now d =
     (case timer d of
        Some deadline \<Rightarrow>
          if deadline \<le> now
          then d\<lparr>timer := None, notifications := notifications d @ [deadline]\<rparr>
          else d
      | None \<Rightarrow> d)"

text \<open>
  A call of the emitter at time \<open>now\<close>: the timer is armed for \<open>now + wait\<close>, in place of
  the one that was pending.
\<close>

definition trigger :: "nat \<Rightarrow> nat \<Rightarrow> Debounced \<Rightarrow> Debounced" where
  "trigger wait now d = (elapse now d)\<lparr>timer := Some (now + wait)\<rparr>"

fun triggerAll :: "nat \<Rightarrow> nat list \<Rightarrow> Debounced \<Rightarrow> Debounced" where
  "triggerAll wait [] d = d"
| "triggerAll wait (t # ts) d = triggerAll wait ts (trigger wait t d)"

section \<open>Notions used to state the properties\<close>

text \<open>
  The calls of \<open>endActive\<close> and \<open>startActive\<close> the setter of the active item makes, in
  the order it makes them: none when the new value is the getter's current result.
\<close>

definition activationEffects :: "Item option \<Rightarrow> FloorplanController \<Rightarrow> Effect list" where
  "activationEffects item s =
     (if ofOption item \<noteq> activeItem s then
        (case activeItem s of Obj a \<Rightarrow> [ItemEndActive a] | _ \<Rightarrow> []) @
        (case item of Some i \<Rightarrow> [ItemStartActive i] | None \<Rightarrow> [])
      else [])"

text \<open>
  At most one of the active corner, the active wall and the active item is not \<open>null\<close>:
  two of the three are \<open>null\<close>.
\<close>

definition selectionExclusive :: "FloorplanController \<Rightarrow> bool" where
  "selectionExclusive s =
     ((activeCorner s = None \<and> activeWall s = None)
      \<or> (activeCorner s = None \<and> activeItem s = Null)
      \<or> (activeWall s = None \<and> activeItem s = Null))"

text \<open>
  A step from \<open>s\<close> to \<open>s'\<close> that gives one of the three a new value other than \<open>null\<close>
  leaves the other two \<open>null\<close>. For the item the value that is set is the stored index.
\<close>

definition setsExclusively :: "FloorplanController \<Rightarrow> FloorplanController \<Rightarrow> bool" where
  "setsExclusively s s' =
     ((activeCorner s' \<noteq> None \<and> activeCorner s' \<noteq> activeCorner s
         \<longrightarrow> activeWall s' = None \<and> activeItem s' = Null)
      \<and> (activeWall s' \<noteq> None \<and> activeWall s' \<noteq> activeWall s
         \<longrightarrow> activeCorner s' = None \<and> activeItem s' = Null)
      \<and> (activeItemIndex s' \<noteq> None \<and> activeItemIndex s' \<noteq> activeItemIndex s
         \<longrightarrow> activeCorner s' = None \<and> activeWall s' = None))"

text \<open>Two walls connect the same two corners, in the same or in the opposite direction.\<close>

definition sameCorners :: "FloorplanModel \<Rightarrow> Wall \<Rightarrow> Wall \<Rightarrow> bool" where
  "sameCorners m a b =
     ((getStart m a = getStart m b \<and> getEnd m a = getEnd m b)
      \<or> (getStart m a = getEnd m b \<and> getEnd m a = getStart m b))"

text \<open>
  The times of a sequence of calls follow one another, each less than the quiet interval
  after the one before.
\<close>

fun withinQuietPeriod :: "nat \<Rightarrow> nat list \<Rightarrow> bool" where
  "withinQuietPeriod wait [] = True"
| "withinQuietPeriod wait [t] = True"
| "withinQuietPeriod wait (t # u # ts) =
     (t \<le> u \<and> u < t + wait \<and> withinQuietPeriod wait (u # ts))"

section \<open>Sample inputs\<close>

text \<open>
  A small floorplan, a family of collaborators and a controller built on them, at which
  the theorems below are instantiated. The floorplan has three corners, two items and
  four walls: wall 0 from corner 0 to corner 1, wall 1 from corner 1 to corner 0, wall 2
  from corner 1 to corner 2 and wall 3 from corner 0 to corner 1. The collaborators
  answer every hit test with the given results, leave the model alone in the items' own
  handlers and in moving and snapping, create a corner or a wall under the next free
  reference, and report the given result of a merge.
\<close>

definition sampleModel :: FloorplanModel where
  "sampleModel =
     \<lparr>corners = [0, 1, 2], walls = [0, 1, 2, 3], items = [0, 1], selectedItem = None,
      cornerX = (\<lambda>c. if c = 0 then 0 else 100),
      cornerY = (\<lambda>c. if c = 2 then 80 else 0),
      wallStart = (\<lambda>w. if w = 1 \<or> w = 2 then 1 else 0),
      wallEnd = (\<lambda>w. if w = 1 then 0 else if w = 2 then 2 else 1)\<rparr>"

definition sampleCollaborators ::
  "Item option \<Rightarrow> Corner option \<Rightarrow> Wall option \<Rightarrow> bool \<Rightarrow> Collaborators" where
  "sampleCollaborators hitItem hitCorner hitWall merged =
     \<lparr>overlappedItem = (\<lambda>m x y. hitItem),
      overlappedCorner = (\<lambda>m x y. hitCorner),
      overlappedWall = (\<lambda>m x y. hitWall),
      Item_mousedown = (\<lambda>i x y m. m),
      Item_mousemove = (\<lambda>i x y lx ly m. (False, m)),
      Item_mouseup = (\<lambda>i x y m. (False, m)),
      Item_relativeMove = (\<lambda>i dx dy m. m),
      Corner_move = (\<lambda>c x y m. m),
      Corner_snapToAxis = (\<lambda>c t m. m),
      Corner_mergeWithIntersected = (\<lambda>c m. (merged, m)),
      Wall_relativeMove = (\<lambda>w dx dy m. m),
      Wall_snapToAxis = (\<lambda>w t m. m),
      newCorner = (\<lambda>x y m.
        (length (corners m),
         m\<lparr>corners := corners m @ [length (corners m)],
           cornerX := (cornerX m)(length (corners m) := x),
           cornerY := (cornerY m)(length (corners m) := y)\<rparr>)),
      newWall = (\<lambda>a b m.
        m\<lparr>walls := walls m @ [length (walls m)],
          wallStart := (wallStart m)(length (walls m) := a),
          wallEnd := (wallEnd m)(length (walls m) := b)\<rparr>),
      getCenter = (\<lambda>m. (0, 0))\<rparr>"

definition sampleController :: FloorplanController where
  "sampleController =
     newController \<lparr>rect_left = 0, rect_top = 0, rect_width = 800, rect_height = 600\<rparr> sampleModel"

section \<open>The observer channel: removal and firing\<close>

lemma callbacks_register:
  "callbacks (foldl (\<lambda>c g. add g c) c0 fs) = callbacks c0 @ fs"
  by (induction fs arbitrary: c0) (simp_all add: add_def)

text \<open>
  Claim C10. Whatever listeners a channel holds, one \<open>remove f\<close> deletes every occurrence
  of \<open>f\<close>: the next \<open>fire\<close> calls the listeners other than \<open>f\<close>, each once per
  registration, in the order of registration and each with the payload, and calls \<open>f\<close>
  not at all. For a channel built from the empty one by registering the listeners \<open>fs\<close>
  one after the other, \<open>fire\<close> calls exactly \<open>fs\<close> in that order, and after \<open>remove f\<close>
  exactly the members of \<open>fs\<close> other than \<open>f\<close>.
\<close>

theorem Callback_remove_fire:
  "fire (remove f c) ev = map (\<lambda>g. (g, ev)) (filter (\<lambda>g. g \<noteq> f) (callbacks c))
   \<and> f \<notin> set (map fst (fire (remove f c) ev))
   \<and> fire (remove f (foldl (\<lambda>c g. add g c) newCallback fs)) ev
       = map (\<lambda>g. (g, ev)) (filter (\<lambda>g. g \<noteq> f) fs)
   \<and> fire (foldl (\<lambda>c g. add g c) newCallback fs) ev = map (\<lambda>g. (g, ev)) fs"
  by (simp add: fire_def remove_def callbacks_register newCallback_def comp_def)

theorem Callback_remove_fire_witness:
  "fire (remove (1::nat) (add 1 (add 2 (add 1 newCallback)))) ''moved'' = [(2, ''moved'')]
   \<and> fire (add (1::nat) (add 2 (add 1 newCallback))) ''moved''
       = [(1, ''moved''), (2, ''moved''), (1, ''moved'')]"
  using Callback_remove_fire [of "1::nat" "add 1 (add 2 (add 1 newCallback))" "''moved''" "[1, 2, 1]"]
  by (simp add: add_def newCallback_def fire_def)

section \<open>The active item and the mode\<close>

lemma activeItem_Null_iff: "activeItem s = Null \<longleftrightarrow> activeItemIndex s = None"
  by (simp add: activeItem_def split: option.splits)

lemma set_activeItem_eq:
  "set_activeItem item s =
     s\<lparr>activeItemIndex :=
          (if indexOf (getItems (floorplan s)) item \<ge> 0
           then Some (nat (indexOf (getItems (floorplan s)) item)) else None),
       effects := effects s @ activationEffects item s\<rparr>"
  by (cases item; cases "activeItem s")
     (simp_all add: set_activeItem_def activationEffects_def effect_def Let_def)

lemma activeItem_update [simp]:
  "activeItem (s\<lparr>mode := v1\<rparr>) = activeItem s"
  "activeItem (s\<lparr>activeWall := v2\<rparr>) = activeItem s"
  "activeItem (s\<lparr>activeCorner := v3\<rparr>) = activeItem s"
  "activeItem (s\<lparr>originX := r1\<rparr>) = activeItem s"
  "activeItem (s\<lparr>originY := r2\<rparr>) = activeItem s"
  "activeItem (s\<lparr>targetX := r3\<rparr>) = activeItem s"
  "activeItem (s\<lparr>targetY := r4\<rparr>) = activeItem s"
  "activeItem (s\<lparr>lastNode := v4\<rparr>) = activeItem s"
  "activeItem (s\<lparr>mouseDown := b1\<rparr>) = activeItem s"
  "activeItem (s\<lparr>mouseMoved := b2\<rparr>) = activeItem s"
  "activeItem (s\<lparr>mouseX := r5\<rparr>) = activeItem s"
  "activeItem (s\<lparr>mouseY := r6\<rparr>) = activeItem s"
  "activeItem (s\<lparr>lastX := r7\<rparr>) = activeItem s"
  "activeItem (s\<lparr>lastY := r8\<rparr>) = activeItem s"
  "activeItem (s\<lparr>lastRawX := r9\<rparr>) = activeItem s"
  "activeItem (s\<lparr>lastRawY := r10\<rparr>) = activeItem s"
  "activeItem (s\<lparr>canvasElement := v5\<rparr>) = activeItem s"
  "activeItem (s\<lparr>effects := v6\<rparr>) = activeItem s"
  by (simp_all add: activeItem_def split: option.splits)

lemma activeItem_index_None [simp]: "activeItem (s\<lparr>activeItemIndex := None\<rparr>) = Null"
  by (simp add: activeItem_def)

lemma activationEffects_None:
  "activationEffects None s = (case activeItem s of Obj a \<Rightarrow> [ItemEndActive a] | _ \<Rightarrow> [])"
  by (cases "activeItem s") (simp_all add: activationEffects_def)

lemma activationEffects_update [simp]:
  "activationEffects item (s\<lparr>activeWall := v2\<rparr>) = activationEffects item s"
  "activationEffects item (s\<lparr>activeCorner := v3\<rparr>) = activationEffects item s"
  "activationEffects item (s\<lparr>mouseDown := b1\<rparr>) = activationEffects item s"
  "activationEffects item (s\<lparr>mouseMoved := b2\<rparr>) = activationEffects item s"
  "activationEffects item (s\<lparr>mouseX := r5\<rparr>) = activationEffects item s"
  "activationEffects item (s\<lparr>mouseY := r6\<rparr>) = activationEffects item s"
  by (simp_all add: activationEffects_def)

lemma setMode_eq:
  "setMode newMode s =
     s\<lparr>mode := newMode, activeWall := None, activeCorner := None, activeItemIndex := None,
       lastNode := None, floorplan := setSelectedItem None False (floorplan s),
       targetX := mouseX s, targetY := mouseY s,
       effects := effects s @ activationEffects None s @ [OnModeChangeFire newMode]\<rparr>"
  by (simp add: setMode_def set_activeItem_eq indexOf_def updateTarget_def effect_def Let_def)

lemma sampleController_eq:
  "sampleController =
     \<lparr>mode = MOVE, activeWall = None, activeCorner = None, activeItemIndex = None,
      originX = 0, originY = 0, targetX = 0, targetY = 0, lastNode = None,
      mouseDown = False, mouseMoved = False, mouseX = 0, mouseY = 0,
      lastX = 0, lastY = 0, lastRawX = 0, lastRawY = 0,
      floorplan = sampleModel,
      canvasElement = \<lparr>rect_left = 0, rect_top = 0, rect_width = 800, rect_height = 600\<rparr>,
      effects = [OnModeChangeFire MOVE]\<rparr>"
  by (simp add: sampleController_def newController_def setMode_eq activationEffects_None
        activeItem_def setSelectedItem_def sampleModel_def)

text \<open>
  Claim C2. For every mode and every state, \<open>setMode newMode\<close> returns a state (the
  function is total and has no error outcome) in which the active corner, the active
  wall, the active item and the last placed corner are \<open>null\<close>, the model has no selected
  item, the mode is \<open>newMode\<close>, and the draw target is the one \<open>updateTarget\<close> computes
  in the new state, which is the pointer position. It calls \<open>onModeChange.fire\<close> exactly
  once, with \<open>newMode\<close>, as its last effect; the only other effect is the \<open>endActive\<close>
  of the item that was active.
\<close>

theorem setMode_clears:
  "activeCorner (setMode newMode s) = None
   \<and> activeWall (setMode newMode s) = None
   \<and> activeItem (setMode newMode s) = Null
   \<and> lastNode (setMode newMode s) = None
   \<and> getSelectedItem (floorplan (setMode newMode s)) = None
   \<and> mode (setMode newMode s) = newMode
   \<and> targetX (setMode newMode s) = mouseX s \<and> targetY (setMode newMode s) = mouseY s
   \<and> targetX (setMode newMode s) = targetX (updateTarget (setMode newMode s))
   \<and> targetY (setMode newMode s) = targetY (updateTarget (setMode newMode s))
   \<and> filter (\<lambda>e. \<exists>m. e = OnModeChangeFire m) (effects (setMode newMode s))
       = filter (\<lambda>e. \<exists>m. e = OnModeChangeFire m) (effects s) @ [OnModeChangeFire newMode]
   \<and> effects (setMode newMode s)
       = effects s @ (case activeItem s of Obj a \<Rightarrow> [ItemEndActive a] | _ \<Rightarrow> [])
           @ [OnModeChangeFire newMode]"
  by (cases "activeItem s")
     (simp_all add: setMode_eq activeItem_def getSelectedItem_def setSelectedItem_def
        updateTarget_def activationEffects_None)

theorem setMode_clears_witness:
  "activeCorner (setMode DRAW (sampleController\<lparr>activeCorner := Some 2, lastNode := Some 1,
       mouseX := 30, mouseY := 40\<rparr>)) = None
   \<and> lastNode (setMode DRAW (sampleController\<lparr>activeCorner := Some 2, lastNode := Some 1,
       mouseX := 30, mouseY := 40\<rparr>)) = None
   \<and> targetX (setMode DRAW (sampleController\<lparr>activeCorner := Some 2, lastNode := Some 1,
       mouseX := 30, mouseY := 40\<rparr>)) = 30
   \<and> effects (setMode DRAW (sampleController\<lparr>activeCorner := Some 2, lastNode := Some 1,
       mouseX := 30, mouseY := 40\<rparr>)) = [OnModeChangeFire MOVE, OnModeChangeFire DRAW]"
  using setMode_clears [of DRAW "sampleController\<lparr>activeCorner := Some 2, lastNode := Some 1,
       mouseX := 30, mouseY := 40\<rparr>"]
  by (simp add: sampleController_eq activeItem_def)

section \<open>The draw target\<close>

subsection \<open>Rounding\<close>

lemma roundTiesToEven_floor:
  "\<lfloor>r\<rfloor> \<le> roundTiesToEven r" "roundTiesToEven r \<le> \<lfloor>r\<rfloor> + 1"
  by (simp_all add: roundTiesToEven_def Let_def)

lemma roundTiesToEven_frac_less:
  "r - of_int \<lfloor>r\<rfloor> < 1 / 2 \<Longrightarrow> roundTiesToEven r = \<lfloor>r\<rfloor>"
  by (simp add: roundTiesToEven_def Let_def)

lemma roundTiesToEven_frac_greater:
  "r - of_int \<lfloor>r\<rfloor> > 1 / 2 \<Longrightarrow> roundTiesToEven r = \<lfloor>r\<rfloor> + 1"
  by (simp add: roundTiesToEven_def Let_def)

lemma roundTiesToEven_frac_half_odd:
  "r - of_int \<lfloor>r\<rfloor> = 1 / 2 \<Longrightarrow> odd \<lfloor>r\<rfloor> \<Longrightarrow> roundTiesToEven r = \<lfloor>r\<rfloor> + 1"
  by (simp add: roundTiesToEven_def Let_def)

lemma roundTiesToEven_ge:
  assumes "of_int n \<le> r"
  shows "n \<le> roundTiesToEven r"
proof -
  have "n \<le> \<lfloor>r\<rfloor>" using assms by (simp only: le_floor_iff)
  then show ?thesis using roundTiesToEven_floor(1) [of r] by linarith
qed

lemma roundTiesToEven_le:
  assumes "r \<le> of_int n"
  shows "roundTiesToEven r \<le> n"
proof (cases "\<lfloor>r\<rfloor> < n")
  case True
  then show ?thesis using roundTiesToEven_floor(2) [of r] by linarith
next
  case False
  have "\<lfloor>r\<rfloor> \<le> n" using assms by (simp add: floor_le_iff)
  with False have f: "\<lfloor>r\<rfloor> = n" by simp
  then have "of_int n \<le> r" by (metis of_int_floor_le)
  with assms have "r - of_int \<lfloor>r\<rfloor> < 1 / 2" using f by simp
  then show ?thesis using f by (simp add: roundTiesToEven_frac_less)
qed

lemma roundTiesToEven_below_half:
  assumes "r < of_int n - 1 / 2"
  shows "roundTiesToEven r < n"
proof -
  have "r < of_int n" using assms by linarith
  then have le: "\<lfloor>r\<rfloor> \<le> n - 1" by (simp add: floor_less_iff)
  show ?thesis
  proof (cases "\<lfloor>r\<rfloor> = n - 1")
    case True
    then have "r - of_int \<lfloor>r\<rfloor> < 1 / 2" using assms by simp
    then show ?thesis using True by (simp add: roundTiesToEven_frac_less)
  next
    case False
    with le have "\<lfloor>r\<rfloor> + 1 < n" by linarith
    then show ?thesis using roundTiesToEven_floor(2) [of r] by linarith
  qed
qed

lemma roundTiesToEven_above_half:
  assumes "of_int n - 1 / 2 < r"
  shows "n \<le> roundTiesToEven r"
proof -
  have "of_int (n - 1) \<le> r" using assms by simp
  then have ge: "n - 1 \<le> \<lfloor>r\<rfloor>" by (simp only: le_floor_iff)
  show ?thesis
  proof (cases "\<lfloor>r\<rfloor> = n - 1")
    case True
    then have "r - of_int \<lfloor>r\<rfloor> > 1 / 2" using assms by simp
    then show ?thesis using True by (simp add: roundTiesToEven_frac_greater)
  next
    case False
    with ge have "n \<le> \<lfloor>r\<rfloor>" by linarith
    then show ?thesis using roundTiesToEven_floor(1) [of r] by linarith
  qed
qed

lemma roundTiesToEven_tie:
  assumes "r = of_int n - 1 / 2" "even n"
  shows "roundTiesToEven r = n"
proof -
  have f: "\<lfloor>r\<rfloor> = n - 1"
    using assms(1) by (simp add: floor_eq_iff)
  have "r - of_int \<lfloor>r\<rfloor> = 1 / 2" "odd \<lfloor>r\<rfloor>"
    using assms f by simp_all
  then show ?thesis using f by (simp add: roundTiesToEven_frac_half_odd)
qed

lemma binade:
  assumes "a > 0"
  shows "(2::real) powr of_int \<lfloor>log 2 a\<rfloor> \<le> a" "a < (2::real) powr (of_int \<lfloor>log 2 a\<rfloor> + 1)"
  using floor_log_eq_powr_iff [of a 2 "\<lfloor>log 2 a\<rfloor>"] assms by simp_all

lemma fl64_abs:
  assumes "d \<noteq> 0"
  shows "\<bar>fl64 d\<bar> =
     of_int (roundTiesToEven (\<bar>d\<bar> / (2::real) powr (of_int (max \<lfloor>log 2 \<bar>d\<bar>\<rfloor> (- 1022)) - 52)))
       * (2::real) powr (of_int (max \<lfloor>log 2 \<bar>d\<bar>\<rfloor> (- 1022)) - 52)"
proof -
  define q where "q = (2::real) powr (of_int (max \<lfloor>log 2 \<bar>d\<bar>\<rfloor> (- 1022)) - 52)"
  have q: "q > 0" by (simp add: q_def)
  have "of_int 0 \<le> \<bar>d\<bar> / q" using q by simp
  then have k: "0 \<le> roundTiesToEven (\<bar>d\<bar> / q)" by (rule roundTiesToEven_ge)
  have "fl64 d = sgn d * of_int (roundTiesToEven (\<bar>d\<bar> / q)) * q"
    using assms by (simp add: fl64_def Let_def q_def)
  then have "\<bar>fl64 d\<bar> = \<bar>sgn d\<bar> * \<bar>of_int (roundTiesToEven (\<bar>d\<bar> / q))\<bar> * \<bar>q\<bar>"
    by (simp add: abs_mult)
  also have "\<dots> = of_int (roundTiesToEven (\<bar>d\<bar> / q)) * q"
    using assms q k by (simp add: abs_sgn_eq)
  finally show ?thesis by (simp add: q_def)
qed

lemma fl64_binade4:
  assumes "d \<noteq> 0" "\<lfloor>log 2 \<bar>d\<bar>\<rfloor> = 4"
  shows "\<bar>fl64 d\<bar> < 25 \<longleftrightarrow> \<bar>d\<bar> < 25 - 1 / 2 ^ 49"
proof -
  define N :: int where "N = 25 * 2 ^ 48"
  have q: "(2::real) powr (of_int (max \<lfloor>log 2 \<bar>d\<bar>\<rfloor> (- 1022)) - 52) = 1 / 2 ^ 48"
    using assms(2) powr_minus [of "2::real" 48] by (simp add: inverse_eq_divide)
  have abs: "\<bar>fl64 d\<bar> = of_int (roundTiesToEven (\<bar>d\<bar> * 2 ^ 48)) / 2 ^ 48"
    using fl64_abs [OF assms(1)] by (simp add: q)
  have iff: "\<bar>fl64 d\<bar> < 25 \<longleftrightarrow> roundTiesToEven (\<bar>d\<bar> * 2 ^ 48) < N"
  proof -
    have "\<bar>fl64 d\<bar> < 25 \<longleftrightarrow> (of_int (roundTiesToEven (\<bar>d\<bar> * 2 ^ 48)) :: real) < of_int N"
      by (simp add: abs N_def field_simps)
    then show ?thesis by (simp only: of_int_less_iff)
  qed
  have N: "(of_int N :: real) = 25 * 2 ^ 48" by (simp add: N_def)
  consider "\<bar>d\<bar> < 25 - 1 / 2 ^ 49" | "\<bar>d\<bar> = 25 - 1 / 2 ^ 49" | "\<bar>d\<bar> > 25 - 1 / 2 ^ 49"
    by linarith
  then show ?thesis
  proof cases
    case 1
    then have "\<bar>d\<bar> * 2 ^ 48 < of_int N - 1 / 2" by (simp add: N field_simps)
    then have "roundTiesToEven (\<bar>d\<bar> * 2 ^ 48) < N" by (rule roundTiesToEven_below_half)
    with 1 iff show ?thesis by simp
  next
    case 2
    then have "\<bar>d\<bar> * 2 ^ 48 = of_int N - 1 / 2" by (simp add: N field_simps)
    moreover have "even N" by (simp add: N_def)
    ultimately have "roundTiesToEven (\<bar>d\<bar> * 2 ^ 48) = N" by (rule roundTiesToEven_tie)
    with 2 iff show ?thesis by simp
  next
    case 3
    then have "of_int N - 1 / 2 < \<bar>d\<bar> * 2 ^ 48" by (simp add: N field_simps)
    then have "N \<le> roundTiesToEven (\<bar>d\<bar> * 2 ^ 48)" by (rule roundTiesToEven_above_half)
    with 3 iff show ?thesis by simp
  qed
qed

lemma fl64_binade_high:
  assumes "d \<noteq> 0" "5 \<le> \<lfloor>log 2 \<bar>d\<bar>\<rfloor>"
  shows "32 \<le> \<bar>fl64 d\<bar>" "32 \<le> \<bar>d\<bar>"
proof -
  define e where "e = \<lfloor>log 2 \<bar>d\<bar>\<rfloor>"
  define q where "q = (2::real) powr (of_int e - 52)"
  have e5: "5 \<le> e" using assms(2) by (simp add: e_def)
  have emax: "max e (- 1022) = e" using e5 by simp
  have q: "q > 0" by (simp add: q_def)
  have low: "(2::real) powr of_int e \<le> \<bar>d\<bar>"
    using binade(1) [of "\<bar>d\<bar>"] assms(1) by (simp add: e_def)
  have split: "(2::real) powr of_int e = 2 ^ 52 * q"
    using powr_add [of "2::real" 52 "of_int e - 52"] by (simp add: q_def)
  have "(2::real) powr 5 \<le> 2 powr of_int e"
    using e5 by (intro powr_mono) simp_all
  then have p32: "(32::real) \<le> 2 powr of_int e" by simp
  with low show "32 \<le> \<bar>d\<bar>" by linarith
  have "2 ^ 52 * q \<le> \<bar>d\<bar>"
    using low split by linarith
  then have "of_int (2 ^ 52) \<le> \<bar>d\<bar> / q"
    using q by (simp add: field_simps)
  then have "2 ^ 52 \<le> roundTiesToEven (\<bar>d\<bar> / q)" by (rule roundTiesToEven_ge)
  then have "(of_int (2 ^ 52) :: real) \<le> of_int (roundTiesToEven (\<bar>d\<bar> / q))"
    by (simp only: of_int_le_iff)
  then have "2 ^ 52 * q \<le> of_int (roundTiesToEven (\<bar>d\<bar> / q)) * q"
    using q by simp
  moreover have "\<bar>fl64 d\<bar> = of_int (roundTiesToEven (\<bar>d\<bar> / q)) * q"
    using fl64_abs [OF assms(1)] by (simp add: q_def e_def [symmetric] emax)
  ultimately show "32 \<le> \<bar>fl64 d\<bar>" using p32 split by linarith
qed

lemma fl64_binade_low:
  assumes "d \<noteq> 0" "\<lfloor>log 2 \<bar>d\<bar>\<rfloor> \<le> 3"
  shows "\<bar>fl64 d\<bar> \<le> 16" "\<bar>d\<bar> < 16"
proof -
  define e where "e = \<lfloor>log 2 \<bar>d\<bar>\<rfloor>"
  define e' where "e' = max e (- 1022)"
  define q where "q = (2::real) powr (of_int e' - 52)"
  have e3: "e \<le> 3" using assms(2) by (simp add: e_def)
  have e': "e \<le> e'" "e' \<le> 3" using e3 by (simp_all add: e'_def)
  have q: "q > 0" by (simp add: q_def)
  have up: "\<bar>d\<bar> < (2::real) powr (of_int e + 1)"
    using binade(2) [of "\<bar>d\<bar>"] assms(1) by (simp add: e_def)
  have mono: "(2::real) powr (of_int e + 1) \<le> 2 powr (of_int e' + 1)"
    using e'(1) by (intro powr_mono) simp_all
  have split: "(2::real) powr (of_int e' + 1) = 2 ^ 53 * q"
    using powr_add [of "2::real" 53 "of_int e' - 52"] by (simp add: q_def add.commute)
  have "(2::real) powr (of_int e' + 1) \<le> 2 powr 4"
    using e'(2) by (intro powr_mono) simp_all
  then have p16: "(2::real) powr (of_int e' + 1) \<le> 16" by simp
  with up mono show "\<bar>d\<bar> < 16" by linarith
  have "\<bar>d\<bar> \<le> 2 ^ 53 * q"
    using up mono split by linarith
  then have "\<bar>d\<bar> / q \<le> of_int (2 ^ 53)"
    using q by (simp add: field_simps)
  then have "roundTiesToEven (\<bar>d\<bar> / q) \<le> 2 ^ 53" by (rule roundTiesToEven_le)
  then have "(of_int (roundTiesToEven (\<bar>d\<bar> / q)) :: real) \<le> of_int (2 ^ 53)"
    by (simp only: of_int_le_iff)
  then have "of_int (roundTiesToEven (\<bar>d\<bar> / q)) * q \<le> 2 ^ 53 * q"
    using q by simp
  moreover have "\<bar>fl64 d\<bar> = of_int (roundTiesToEven (\<bar>d\<bar> / q)) * q"
    using fl64_abs [OF assms(1)] by (simp add: q_def e'_def e_def)
  ultimately show "\<bar>fl64 d\<bar> \<le> 16" using p16 split by linarith
qed

text \<open>
  The rounded difference is below 25 exactly when the difference is below 25 by more than
  half the spacing of the numbers under 25, which is \<open>2\<close> to the \<open>-48\<close>: a difference
  closer to 25 rounds to 25.
\<close>

lemma fl64_below_25: "\<bar>fl64 d\<bar> < 25 \<longleftrightarrow> \<bar>d\<bar> < 25 - 1 / 2 ^ 49"
proof (cases "d = 0")
  case True
  then show ?thesis by (simp add: fl64_def)
next
  case False
  consider "\<lfloor>log 2 \<bar>d\<bar>\<rfloor> \<le> 3" | "\<lfloor>log 2 \<bar>d\<bar>\<rfloor> = 4" | "5 \<le> \<lfloor>log 2 \<bar>d\<bar>\<rfloor>"
    by linarith
  then show ?thesis
  proof cases
    case 1
    from fl64_binade_low [OF False 1] show ?thesis by simp
  next
    case 2
    from fl64_binade4 [OF False 2] show ?thesis .
  next
    case 3
    from fl64_binade_high [OF False 3] show ?thesis by simp
  qed
qed

subsection \<open>Snapping\<close>

text \<open>
  Claim C3 as stated fails: in DRAW mode with the pointer at \<open>x = 25\<close> and the last placed
  corner at \<open>x = 2\<close> to the \<open>-70\<close>, the two differ by less than 25, yet the target keeps
  the pointer's coordinate 25 and is not the corner's: the computed difference is 25.
\<close>

theorem updateTarget_snap_counterexample:
  "mode (sampleController\<lparr>mode := DRAW, lastNode := Some 1, mouseX := 25,
       floorplan := sampleModel\<lparr>cornerX := (\<lambda>c. 1 / 2 ^ 70)\<rparr>\<rparr>) = DRAW
   \<and> lastNode (sampleController\<lparr>mode := DRAW, lastNode := Some 1, mouseX := 25,
       floorplan := sampleModel\<lparr>cornerX := (\<lambda>c. 1 / 2 ^ 70)\<rparr>\<rparr>) = Some 1
   \<and> \<bar>mouseX (sampleController\<lparr>mode := DRAW, lastNode := Some 1, mouseX := 25,
         floorplan := sampleModel\<lparr>cornerX := (\<lambda>c. 1 / 2 ^ 70)\<rparr>\<rparr>)
       - cornerX (floorplan (sampleController\<lparr>mode := DRAW, lastNode := Some 1, mouseX := 25,
         floorplan := sampleModel\<lparr>cornerX := (\<lambda>c. 1 / 2 ^ 70)\<rparr>\<rparr>)) 1\<bar> < 25
   \<and> targetX (updateTarget (sampleController\<lparr>mode := DRAW, lastNode := Some 1, mouseX := 25,
       floorplan := sampleModel\<lparr>cornerX := (\<lambda>c. 1 / 2 ^ 70)\<rparr>\<rparr>)) = 25
   \<and> targetX (updateTarget (sampleController\<lparr>mode := DRAW, lastNode := Some 1, mouseX := 25,
       floorplan := sampleModel\<lparr>cornerX := (\<lambda>c. 1 / 2 ^ 70)\<rparr>\<rparr>))
       \<noteq> cornerX (floorplan (sampleController\<lparr>mode := DRAW, lastNode := Some 1, mouseX := 25,
         floorplan := sampleModel\<lparr>cornerX := (\<lambda>c. 1 / 2 ^ 70)\<rparr>\<rparr>)) 1"
  by (simp add: updateTarget_def Let_def snapTolerance_def fl64_below_25 sampleController_eq)

text \<open>
  Claim C3, amended. In DRAW mode with a last placed corner \<open>n\<close>, \<open>updateTarget\<close> sets
  each coordinate of the target on its own: to the corner's coordinate when the
  difference of the pointer's coordinate and the corner's, as binary64 arithmetic
  computes it, has absolute value below 25, to the pointer's coordinate otherwise. In
  exact terms the target snaps exactly when the two coordinates differ by less than
  \<open>25 - 1 / 2 ^ 49\<close>. In any other mode, or with no last placed corner, the target is the
  pointer position.
\<close>

theorem updateTarget_snap_binary64:
  "(mode s = DRAW \<and> lastNode s = Some n \<longrightarrow>
      targetX (updateTarget s) =
        (if \<bar>fl64 (mouseX s - cornerX (floorplan s) n)\<bar> < 25
         then cornerX (floorplan s) n else mouseX s)
    \<and> targetY (updateTarget s) =
        (if \<bar>fl64 (mouseY s - cornerY (floorplan s) n)\<bar> < 25
         then cornerY (floorplan s) n else mouseY s)
    \<and> targetX (updateTarget s) =
        (if \<bar>mouseX s - cornerX (floorplan s) n\<bar> < 25 - 1 / 2 ^ 49
         then cornerX (floorplan s) n else mouseX s)
    \<and> targetY (updateTarget s) =
        (if \<bar>mouseY s - cornerY (floorplan s) n\<bar> < 25 - 1 / 2 ^ 49
         then cornerY (floorplan s) n else mouseY s))
   \<and> (mode s \<noteq> DRAW \<or> lastNode s = None \<longrightarrow>
        targetX (updateTarget s) = mouseX s \<and> targetY (updateTarget s) = mouseY s)"
proof -
  have rounded: "targetX (updateTarget s) =
        (if \<bar>fl64 (mouseX s - cornerX (floorplan s) n)\<bar> < 25
         then cornerX (floorplan s) n else mouseX s)
    \<and> targetY (updateTarget s) =
        (if \<bar>fl64 (mouseY s - cornerY (floorplan s) n)\<bar> < 25
         then cornerY (floorplan s) n else mouseY s)"
    if "mode s = DRAW" "lastNode s = Some n"
    using that by (simp add: updateTarget_def snapTolerance_def Let_def)
  have exact: "targetX (updateTarget s) =
        (if \<bar>mouseX s - cornerX (floorplan s) n\<bar> < 25 - 1 / 2 ^ 49
         then cornerX (floorplan s) n else mouseX s)
    \<and> targetY (updateTarget s) =
        (if \<bar>mouseY s - cornerY (floorplan s) n\<bar> < 25 - 1 / 2 ^ 49
         then cornerY (floorplan s) n else mouseY s)"
    if "mode s = DRAW" "lastNode s = Some n"
    using rounded [OF that] by (simp only: fl64_below_25)
  have raw: "targetX (updateTarget s) = mouseX s \<and> targetY (updateTarget s) = mouseY s"
    if "mode s \<noteq> DRAW \<or> lastNode s = None"
    using that by (auto simp: updateTarget_def)
  show ?thesis
    using rounded exact raw by blast
qed

theorem updateTarget_snap_binary64_witness:
  "targetX (updateTarget (sampleController\<lparr>mode := DRAW, lastNode := Some 1,
       mouseX := 110, mouseY := 40\<rparr>)) = 100
   \<and> targetY (updateTarget (sampleController\<lparr>mode := DRAW, lastNode := Some 1,
       mouseX := 110, mouseY := 40\<rparr>)) = 40
   \<and> targetX (updateTarget (sampleController\<lparr>lastNode := Some 1,
       mouseX := 110, mouseY := 40\<rparr>)) = 110"
  using updateTarget_snap_binary64 [of "sampleController\<lparr>mode := DRAW, lastNode := Some 1,
       mouseX := 110, mouseY := 40\<rparr>" 1]
    updateTarget_snap_binary64 [of "sampleController\<lparr>lastNode := Some 1,
       mouseX := 110, mouseY := 40\<rparr>" 1]
  by (simp add: sampleController_eq sampleModel_def)

section \<open>What the blocks of the handlers leave alone\<close>

lemma effect_fields [simp]:
  "activeCorner (effect e s) = activeCorner s" "activeWall (effect e s) = activeWall s"
  "activeItemIndex (effect e s) = activeItemIndex s" "mode (effect e s) = mode s"
  "mouseX (effect e s) = mouseX s" "mouseY (effect e s) = mouseY s"
  "mouseDown (effect e s) = mouseDown s" "lastNode (effect e s) = lastNode s"
  "floorplan (effect e s) = floorplan s" "effects (effect e s) = effects s @ [e]"
  by (simp_all add: effect_def)

lemma updateTarget_fields [simp]:
  "activeCorner (updateTarget s) = activeCorner s" "activeWall (updateTarget s) = activeWall s"
  "activeItemIndex (updateTarget s) = activeItemIndex s" "mode (updateTarget s) = mode s"
  "mouseX (updateTarget s) = mouseX s" "mouseY (updateTarget s) = mouseY s"
  "mouseDown (updateTarget s) = mouseDown s" "lastNode (updateTarget s) = lastNode s"
  "floorplan (updateTarget s) = floorplan s" "effects (updateTarget s) = effects s"
  by (simp_all add: updateTarget_def Let_def split: option.splits)

lemma checkWallDuplicates_fields [simp]:
  "activeCorner (checkWallDuplicates s) = activeCorner s" "activeWall (checkWallDuplicates s) = activeWall s"
  "activeItemIndex (checkWallDuplicates s) = activeItemIndex s" "mode (checkWallDuplicates s) = mode s"
  "mouseX (checkWallDuplicates s) = mouseX s" "mouseY (checkWallDuplicates s) = mouseY s"
  "mouseDown (checkWallDuplicates s) = mouseDown s" "lastNode (checkWallDuplicates s) = lastNode s"
  "effects (checkWallDuplicates s) = effects s"
  by (simp_all add: checkWallDuplicates_def Let_def)

lemma updateMouse_fields [simp]:
  "activeCorner (updateMouse e s) = activeCorner s" "activeWall (updateMouse e s) = activeWall s"
  "activeItemIndex (updateMouse e s) = activeItemIndex s" "mode (updateMouse e s) = mode s"
  "mouseX (updateMouse e s) = (clientX e - rect_left (canvasElement s)) * cmPerPixel + originX s * cmPerPixel"
  "mouseY (updateMouse e s) = (clientY e - rect_top (canvasElement s)) * cmPerPixel + originY s * cmPerPixel"
  "mouseDown (updateMouse e s) = mouseDown s" "lastNode (updateMouse e s) = lastNode s"
  "floorplan (updateMouse e s) = floorplan s" "effects (updateMouse e s) = effects s"
  "activeItem (updateMouse e s) = activeItem s"
  by (simp_all add: updateMouse_def Let_def)

lemma panning_fields [simp]:
  "activeCorner (panning e s) = activeCorner s" "activeWall (panning e s) = activeWall s"
  "activeItemIndex (panning e s) = activeItemIndex s" "mode (panning e s) = mode s"
  "mouseX (panning e s) = mouseX s" "mouseY (panning e s) = mouseY s"
  "mouseDown (panning e s) = mouseDown s" "lastNode (panning e s) = lastNode s"
  "floorplan (panning e s) = floorplan s"
  by (simp_all add: panning_def Let_def view_draw_def effect_def)

lemma dragActive_fields [simp]:
  "activeCorner (dragActive ext s) = activeCorner s" "activeWall (dragActive ext s) = activeWall s"
  "activeItemIndex (dragActive ext s) = activeItemIndex s" "mode (dragActive ext s) = mode s"
  "mouseX (dragActive ext s) = mouseX s" "mouseY (dragActive ext s) = mouseY s"
  "mouseDown (dragActive ext s) = mouseDown s" "lastNode (dragActive ext s) = lastNode s"
  by (simp_all add: dragActive_def emitChanges_def Let_def
        split: ItemRef.splits option.splits)

lemma dragging_fields [simp]:
  "activeCorner (dragging ext sel s) = activeCorner s" "activeWall (dragging ext sel s) = activeWall s"
  "activeItemIndex (dragging ext sel s) = activeItemIndex s" "mode (dragging ext sel s) = mode s"
  "mouseX (dragging ext sel s) = mouseX s" "mouseY (dragging ext sel s) = mouseY s"
  "mouseDown (dragging ext sel s) = mouseDown s" "lastNode (dragging ext sel s) = lastNode s"
  by (simp_all add: dragging_def emitChanges_def view_draw_def Let_def
        split: option.splits prod.splits)

lemma set_activeItem_fields [simp]:
  "mode (set_activeItem item s) = mode s"
  "activeCorner (set_activeItem item s) = activeCorner s"
  "activeWall (set_activeItem item s) = activeWall s"
  "mouseX (set_activeItem item s) = mouseX s" "mouseY (set_activeItem item s) = mouseY s"
  "mouseDown (set_activeItem item s) = mouseDown s" "lastNode (set_activeItem item s) = lastNode s"
  "floorplan (set_activeItem item s) = floorplan s"
  by (simp_all add: set_activeItem_eq)

lemma updateObjectTarget_fields [simp]:
  "mode (updateObjectTarget ext s) = mode s"
  "mouseX (updateObjectTarget ext s) = mouseX s" "mouseY (updateObjectTarget ext s) = mouseY s"
  "mouseDown (updateObjectTarget ext s) = mouseDown s" "lastNode (updateObjectTarget ext s) = lastNode s"
  "floorplan (updateObjectTarget ext s) = floorplan s"
  by (simp_all add: updateObjectTarget_def view_draw_def Let_def split: option.splits)

lemma releaseSelected_fields [simp]:
  "activeCorner (releaseSelected ext s) = activeCorner s"
  "activeWall (releaseSelected ext s) = activeWall s"
  "activeItemIndex (releaseSelected ext s) = activeItemIndex s"
  "mode (releaseSelected ext s) = mode s" "lastNode (releaseSelected ext s) = lastNode s"
  "mouseMoved (releaseSelected ext s) = mouseMoved s"
  by (simp_all add: releaseSelected_def Let_def view_draw_def emitChanges_def effect_def
        split: option.splits prod.splits)

lemma selectActive_fields [simp]:
  "activeCorner (selectActive s) = activeCorner s"
  "activeWall (selectActive s) = activeWall s"
  "activeItemIndex (selectActive s) = activeItemIndex s"
  "mode (selectActive s) = mode s" "lastNode (selectActive s) = lastNode s"
  by (simp_all add: selectActive_def Let_def view_draw_def effect_def split: ItemRef.splits)

section \<open>Coordinate conversion\<close>

lemma mousemove_mouse:
  "mouseX (mousemove ext e s) = (clientX e - rect_left (canvasElement s)) * cmPerPixel + originX s * cmPerPixel"
  "mouseY (mousemove ext e s) = (clientY e - rect_top (canvasElement s)) * cmPerPixel + originY s * cmPerPixel"
  by (simp_all add: mousemove_def Let_def view_draw_def)

lemma cmPerPixel_nonzero: "cmPerPixel \<noteq> 0"
  by (simp add: cmPerPixel_def cmPerFoot_def pixelsPerFoot_def)

lemma convert_inverse: "(v - o1 * cmPerPixel) * pixelsPerCm * cmPerPixel + o1 * cmPerPixel = v"
  using cmPerPixel_nonzero by (simp add: pixelsPerCm_def)

text \<open>
  Claim C8. For every model coordinate and every view origin, in exact arithmetic:
  \<open>convertX\<close> followed by the pixel-to-model transform (times \<open>cmPerPixel\<close>, plus the
  origin times \<open>cmPerPixel\<close>) gives the coordinate back, and so does \<open>convertY\<close>. The
  pointer handler applies that transform: a move event whose offset from the canvas
  corner is the converted coordinate leaves the pointer position at the coordinate.
\<close>

theorem convert_round_trip:
  "mouseX (mousemove ext \<lparr>clientX = rect_left (canvasElement s) + convertX s x,
                           clientY = rect_top (canvasElement s) + convertY s y\<rparr> s) = x
   \<and> mouseY (mousemove ext \<lparr>clientX = rect_left (canvasElement s) + convertX s x,
                             clientY = rect_top (canvasElement s) + convertY s y\<rparr> s) = y
   \<and> convertX s x * cmPerPixel + originX s * cmPerPixel = x
   \<and> convertY s y * cmPerPixel + originY s * cmPerPixel = y"
  by (simp add: mousemove_mouse convertX_def convertY_def convert_inverse)

theorem convert_round_trip_witness:
  "convertX (sampleController\<lparr>originX := 10\<rparr>) 50.8 = 15
   \<and> mouseX (mousemove (sampleCollaborators None None None False)
        \<lparr>clientX = 15, clientY = 0\<rparr> (sampleController\<lparr>originX := 10\<rparr>)) = 50.8"
  using convert_round_trip [of "sampleCollaborators None None None False"
      "sampleController\<lparr>originX := 10\<rparr>" "50.8" 0]
  by (simp add: convertX_def convertY_def sampleController_def newController_def setMode_eq
      pixelsPerCm_def cmPerPixel_def cmPerFoot_def pixelsPerFoot_def)

section \<open>Hit testing on a pointer move\<close>

lemma indexOfFrom_notin: "v \<notin> set xs \<Longrightarrow> indexOfFrom xs v i = - 1"
  by (induction xs arbitrary: i) auto

lemma indexOfFrom_in:
  "v \<in> set xs \<Longrightarrow> i \<ge> 0 \<Longrightarrow>
     i \<le> indexOfFrom xs v i \<and> nat (indexOfFrom xs v i - i) < length xs
     \<and> xs ! nat (indexOfFrom xs v i - i) = v"
proof (induction xs arbitrary: i)
  case Nil
  then show ?case by simp
next
  case (Cons a xs)
  show ?case
  proof (cases "a = v")
    case True
    then show ?thesis by simp
  next
    case False
    with Cons.prems have mem: "v \<in> set xs" by simp
    from Cons.prems have "i + 1 \<ge> 0" by simp
    from Cons.IH [OF mem this]
    have ih: "i + 1 \<le> indexOfFrom xs v (i + 1)"
      "nat (indexOfFrom xs v (i + 1) - (i + 1)) < length xs"
      "xs ! nat (indexOfFrom xs v (i + 1) - (i + 1)) = v"
      by simp_all
    have eq: "nat (indexOfFrom xs v (i + 1) - i) = Suc (nat (indexOfFrom xs v (i + 1) - (i + 1)))"
      using ih(1) by linarith
    show ?thesis using False ih eq by simp
  qed
qed

lemma activeItem_after_set:
  "activeItem (set_activeItem item s) =
     (case item of None \<Rightarrow> Null
      | Some h \<Rightarrow> if h \<in> set (getItems (floorplan s)) then Obj h else Null)"
proof (cases item)
  case None
  then show ?thesis by (simp add: set_activeItem_eq indexOf_def activeItem_def)
next
  case (Some h)
  show ?thesis
  proof (cases "h \<in> set (getItems (floorplan s))")
    case True
    from indexOfFrom_in [OF True, of 0]
    show ?thesis using Some True
      by (simp add: set_activeItem_eq indexOf_def activeItem_def)
  next
    case False
    then show ?thesis using Some
      by (simp add: set_activeItem_eq indexOf_def activeItem_def indexOfFrom_notin)
  qed
qed

lemma updateObjectTarget_item:
  assumes "overlappedItem ext (floorplan s) (mouseX s) (mouseY s) = Some h"
  shows "updateObjectTarget ext s =
     (set_activeItem (Some h) s)
       \<lparr>activeCorner := None, activeWall := None,
        effects := effects (set_activeItem (Some h) s)
                     @ (if Obj h \<noteq> activeItem s then [ViewDraw] else [])\<rparr>"
  using assms by (simp add: updateObjectTarget_def Let_def view_draw_def effect_def)

lemma updateObjectTarget_none:
  assumes "overlappedItem ext (floorplan s) (mouseX s) (mouseY s) = None"
  shows "updateObjectTarget ext s =
     (set_activeItem None s)
       \<lparr>activeCorner := overlappedCorner ext (floorplan s) (mouseX s) (mouseY s),
        activeWall := (if overlappedCorner ext (floorplan s) (mouseX s) (mouseY s) = None
                       then overlappedWall ext (floorplan s) (mouseX s) (mouseY s) else None),
        effects := effects (set_activeItem None s)
           @ (if Null \<noteq> activeItem s
                 \<or> overlappedCorner ext (floorplan s) (mouseX s) (mouseY s) \<noteq> activeCorner s
                 \<or> (overlappedCorner ext (floorplan s) (mouseX s) (mouseY s) = None
                     \<and> overlappedWall ext (floorplan s) (mouseX s) (mouseY s) \<noteq> activeWall s)
              then [ViewDraw] else [])\<rparr>"
  using assms
  by (auto simp: updateObjectTarget_def Let_def view_draw_def effect_def)

lemma mousemove_hover:
  assumes "mode s \<noteq> DRAW" and "\<not> mouseDown s"
  shows "mousemove ext e s = updateObjectTarget ext (updateMouse e s)"
  using assms by (simp add: mousemove_def Let_def panning_def dragging_def)

lemma set_activeItem_effects:
  "effects (set_activeItem item s) = effects s @ activationEffects item s"
  by (simp add: set_activeItem_eq)

lemma activationEffects_no_draw [simp]: "count_list (activationEffects item s) ViewDraw = 0"
  by (cases item; cases "activeItem s") (simp_all add: activationEffects_def)

text \<open>
  Claim C1. A pointer move handled while the mode is not DRAW and the button is up, with
  a hit test that answers with items of the model: if an item is under the pointer it is
  the active item afterwards and the active corner and wall are \<open>null\<close>; if no item but a
  corner is under the pointer, the corner is the active corner and the active wall is
  \<open>null\<close>; the active wall is set only when neither an item nor a corner is under the
  pointer, and then it is the wall under the pointer. The move requests at most one
  redraw, and it requests one exactly when the hit differs from the selection held
  before (the item from the active item, else the corner from the active corner, else
  the wall from the active wall); whenever it requests one, the selection has changed.
\<close>

theorem mousemove_hit_testing_precedence:
  assumes "mode s \<noteq> DRAW" and "\<not> mouseDown s"
    and "\<And>x y h. overlappedItem ext (floorplan s) x y = Some h \<Longrightarrow> h \<in> set (getItems (floorplan s))"
  shows
   "let s' = mousemove ext e s;
        hoverItem = overlappedItem ext (floorplan s) (mouseX s') (mouseY s');
        hoverCorner = overlappedCorner ext (floorplan s) (mouseX s') (mouseY s');
        hoverWall = overlappedWall ext (floorplan s) (mouseX s') (mouseY s');
        redraws = count_list (effects s') ViewDraw - count_list (effects s) ViewDraw
    in (\<forall>h. hoverItem = Some h \<longrightarrow>
          activeItem s' = Obj h \<and> activeCorner s' = None \<and> activeWall s' = None)
     \<and> (hoverItem = None \<longrightarrow>
          activeItem s' = Null \<and> activeCorner s' = hoverCorner
          \<and> (hoverCorner \<noteq> None \<longrightarrow> activeWall s' = None)
          \<and> (hoverCorner = None \<longrightarrow> activeWall s' = hoverWall))
     \<and> (activeWall s' \<noteq> None \<longrightarrow>
          hoverItem = None \<and> hoverCorner = None \<and> activeWall s' = hoverWall)
     \<and> count_list (effects s) ViewDraw \<le> count_list (effects s') ViewDraw
     \<and> redraws \<le> 1
     \<and> (redraws = 1 \<longleftrightarrow>
          ofOption hoverItem \<noteq> activeItem s
          \<or> (hoverItem = None
              \<and> (hoverCorner \<noteq> activeCorner s
                  \<or> (hoverCorner = None \<and> hoverWall \<noteq> activeWall s))))
     \<and> (redraws = 1 \<longrightarrow>
          (activeItem s', activeCorner s', activeWall s')
            \<noteq> (activeItem s, activeCorner s, activeWall s))"
proof -
  define s1 where "s1 = updateMouse e s"
  have mm: "mousemove ext e s = updateObjectTarget ext s1"
    using assms(1,2) by (simp add: mousemove_hover s1_def)
  have s1: "floorplan s1 = floorplan s" "activeItem s1 = activeItem s"
    "activeCorner s1 = activeCorner s" "activeWall s1 = activeWall s"
    "effects s1 = effects s"
    by (simp_all add: s1_def)
  show ?thesis
  proof (cases "overlappedItem ext (floorplan s1) (mouseX s1) (mouseY s1)")
    case None
    have hit: "overlappedItem ext (floorplan s) (mouseX s1) (mouseY s1) = None"
      using None s1 by simp
    show ?thesis
      unfolding Let_def mm
      by (auto simp: updateObjectTarget_none [OF None] s1 hit
            activeItem_after_set set_activeItem_effects)
  next
    case (Some h)
    have hit: "overlappedItem ext (floorplan s) (mouseX s1) (mouseY s1) = Some h"
      using Some s1 by simp
    have mem: "h \<in> set (getItems (floorplan s))"
      using assms(3) [OF hit] .
    show ?thesis
      unfolding Let_def mm
      by (auto simp: updateObjectTarget_item [OF Some] s1 hit mem
            activeItem_after_set set_activeItem_effects)
  qed
qed

theorem mousemove_hit_testing_precedence_witness:
  "activeItem (mousemove (sampleCollaborators (Some 1) (Some 2) (Some 3) False)
       \<lparr>clientX = 5, clientY = 5\<rparr> sampleController) = Obj 1
   \<and> activeCorner (mousemove (sampleCollaborators (Some 1) (Some 2) (Some 3) False)
       \<lparr>clientX = 5, clientY = 5\<rparr> sampleController) = None
   \<and> activeWall (mousemove (sampleCollaborators (Some 1) (Some 2) (Some 3) False)
       \<lparr>clientX = 5, clientY = 5\<rparr> sampleController) = None
   \<and> activeCorner (mousemove (sampleCollaborators None (Some 2) (Some 3) False)
       \<lparr>clientX = 5, clientY = 5\<rparr> sampleController) = Some 2
   \<and> activeWall (mousemove (sampleCollaborators None (Some 2) (Some 3) False)
       \<lparr>clientX = 5, clientY = 5\<rparr> sampleController) = None
   \<and> activeWall (mousemove (sampleCollaborators None None (Some 3) False)
       \<lparr>clientX = 5, clientY = 5\<rparr> sampleController) = Some 3"
proof -
  have h1: "mode sampleController \<noteq> DRAW" and h2: "\<not> mouseDown sampleController"
    by (simp_all add: sampleController_eq)
  have a1: "overlappedItem (sampleCollaborators (Some 1) (Some 2) (Some 3) False)
        (floorplan sampleController) x y = Some h
      \<Longrightarrow> h \<in> set (getItems (floorplan sampleController))" for x y h
    by (auto simp: sampleCollaborators_def sampleController_eq sampleModel_def getItems_def)
  have a2: "overlappedItem (sampleCollaborators None (Some 2) (Some 3) False)
        (floorplan sampleController) x y = Some h
      \<Longrightarrow> h \<in> set (getItems (floorplan sampleController))" for x y h
    by (simp add: sampleCollaborators_def)
  have a3: "overlappedItem (sampleCollaborators None None (Some 3) False)
        (floorplan sampleController) x y = Some h
      \<Longrightarrow> h \<in> set (getItems (floorplan sampleController))" for x y h
    by (simp add: sampleCollaborators_def)
  show ?thesis
    using mousemove_hit_testing_precedence [where s = sampleController and ext = "sampleCollaborators (Some 1) (Some 2) (Some 3) False"
          and e = "\<lparr>clientX = 5, clientY = 5\<rparr>", OF h1 h2 a1]
      mousemove_hit_testing_precedence [where s = sampleController and ext = "sampleCollaborators None (Some 2) (Some 3) False"
          and e = "\<lparr>clientX = 5, clientY = 5\<rparr>", OF h1 h2 a2]
      mousemove_hit_testing_precedence [where s = sampleController and ext = "sampleCollaborators None None (Some 3) False"
          and e = "\<lparr>clientX = 5, clientY = 5\<rparr>", OF h1 h2 a3]
    by (simp add: Let_def sampleCollaborators_def)
qed

section \<open>Mutual exclusion of the active corner, wall and item\<close>

lemma selectionExclusive_index:
  "selectionExclusive s \<longleftrightarrow>
     (activeCorner s = None \<and> activeWall s = None)
      \<or> (activeCorner s = None \<and> activeItemIndex s = None)
      \<or> (activeWall s = None \<and> activeItemIndex s = None)"
  by (simp add: selectionExclusive_def activeItem_Null_iff)

lemma exclusive_cleared:
  assumes "activeCorner s' = None" "activeWall s' = None" "activeItemIndex s' = None"
  shows "selectionExclusive s'" "setsExclusively s s'"
  using assms by (simp_all add: selectionExclusive_index setsExclusively_def)

lemma setMode_selection [simp]:
  "activeCorner (setMode m s) = None" "activeWall (setMode m s) = None"
  "activeItemIndex (setMode m s) = None"
  by (simp_all add: setMode_eq)

lemma set_activeItem_None_index [simp]: "activeItemIndex (set_activeItem None s) = None"
  by (simp add: set_activeItem_eq indexOf_def)

lemma mouseleave_selection [simp]:
  "activeCorner (mouseleave s) = None" "activeWall (mouseleave s) = None"
  "activeItemIndex (mouseleave s) = None"
  by (simp_all add: mouseleave_def Let_def view_draw_def)

lemma mousedown_selection:
  "(activeCorner (mousedown ext e s) = activeCorner s \<and> activeWall (mousedown ext e s) = activeWall s
     \<and> activeItemIndex (mousedown ext e s) = activeItemIndex s)
   \<or> (activeCorner (mousedown ext e s) = None \<and> activeWall (mousedown ext e s) = None
     \<and> activeItemIndex (mousedown ext e s) = None)"
  by (simp add: mousedown_def Let_def view_draw_def emitChanges_def
        split: option.splits ItemRef.splits)

lemma drawing_selection:
  "(activeCorner (drawing ext s) = activeCorner s \<and> activeWall (drawing ext s) = activeWall s
     \<and> activeItemIndex (drawing ext s) = activeItemIndex s)
   \<or> (activeCorner (drawing ext s) = None \<and> activeWall (drawing ext s) = None
     \<and> activeItemIndex (drawing ext s) = None)"
  by (simp add: drawing_def Let_def view_draw_def emitChanges_def split: prod.splits)

lemma mouseup_selection:
  "(activeCorner (mouseup ext s) = activeCorner s \<and> activeWall (mouseup ext s) = activeWall s
     \<and> activeItemIndex (mouseup ext s) = activeItemIndex s)
   \<or> (activeCorner (mouseup ext s) = None \<and> activeWall (mouseup ext s) = None
     \<and> activeItemIndex (mouseup ext s) = None)"
  using drawing_selection [of ext "releaseSelected ext (s\<lparr>mouseDown := False\<rparr>)"]
  by (simp add: mouseup_def Let_def)

lemma updateObjectTarget_exclusive:
  "selectionExclusive (updateObjectTarget ext s)"
  by (cases "overlappedItem ext (floorplan s) (mouseX s) (mouseY s)")
     (simp_all add: updateObjectTarget_none updateObjectTarget_item selectionExclusive_index)

lemma mousemove_selection:
  "activeCorner (mousemove ext e s) =
     (if mode s \<noteq> DRAW \<and> \<not> mouseDown s
      then activeCorner (updateObjectTarget ext (updateMouse e s)) else activeCorner s)"
  "activeWall (mousemove ext e s) =
     (if mode s \<noteq> DRAW \<and> \<not> mouseDown s
      then activeWall (updateObjectTarget ext (updateMouse e s)) else activeWall s)"
  "activeItemIndex (mousemove ext e s) =
     (if mode s \<noteq> DRAW \<and> \<not> mouseDown s
      then activeItemIndex (updateObjectTarget ext (updateMouse e s)) else activeItemIndex s)"
  by (simp_all add: mousemove_def Let_def view_draw_def)

lemma exclusive_sets: "selectionExclusive s' \<Longrightarrow> setsExclusively s s'"
  by (auto simp: selectionExclusive_index setsExclusively_def activeItem_Null_iff)

lemma mousemove_exclusive:
  "(selectionExclusive s \<longrightarrow> selectionExclusive (mousemove ext e s))
   \<and> setsExclusively s (mousemove ext e s)"
proof (cases "mode s \<noteq> DRAW \<and> \<not> mouseDown s")
  case True
  have "selectionExclusive (updateObjectTarget ext (updateMouse e s))"
    by (rule updateObjectTarget_exclusive)
  then have "selectionExclusive (mousemove ext e s)"
    using True by (simp add: selectionExclusive_index mousemove_selection)
  then show ?thesis by (simp add: exclusive_sets)
next
  case False
  then have "activeCorner (mousemove ext e s) = activeCorner s"
    "activeWall (mousemove ext e s) = activeWall s"
    "activeItemIndex (mousemove ext e s) = activeItemIndex s"
    by (simp_all add: mousemove_selection) blast+
  then show ?thesis by (simp add: selectionExclusive_index setsExclusively_def)
qed

lemma either_exclusive:
  assumes "(activeCorner s' = activeCorner s \<and> activeWall s' = activeWall s
     \<and> activeItemIndex s' = activeItemIndex s)
   \<or> (activeCorner s' = None \<and> activeWall s' = None \<and> activeItemIndex s' = None)"
  shows "(selectionExclusive s \<longrightarrow> selectionExclusive s') \<and> setsExclusively s s'"
  using assms by (auto simp: selectionExclusive_index setsExclusively_def)

text \<open>
  Claim C5. The state a new controller starts in has at most one of the active corner,
  the active wall and the active item set. A mode change, a pointer press, a pointer
  move, a pointer release and a pointer leave each keep it so, and whenever one of them
  gives one of the three a new value other than \<open>null\<close>, the other two are \<open>null\<close>
  afterwards.
\<close>

theorem selection_mutually_exclusive:
  "(selectionExclusive s \<longrightarrow>
      selectionExclusive (setMode m s) \<and> selectionExclusive (mousedown ext e s)
      \<and> selectionExclusive (mousemove ext e s) \<and> selectionExclusive (mouseup ext s)
      \<and> selectionExclusive (mouseleave s))
   \<and> setsExclusively s (setMode m s) \<and> setsExclusively s (mousedown ext e s)
   \<and> setsExclusively s (mousemove ext e s) \<and> setsExclusively s (mouseup ext s)
   \<and> setsExclusively s (mouseleave s)
   \<and> selectionExclusive (newController canvas fp)"
  using mousemove_exclusive [of s ext e]
    either_exclusive [OF mousedown_selection [of ext e s]]
    either_exclusive [OF mouseup_selection [of ext s]]
  by (simp add: exclusive_cleared newController_def)

theorem selection_mutually_exclusive_witness:
  "selectionExclusive (sampleController\<lparr>activeCorner := Some 2\<rparr>)
   \<and> selectionExclusive (mousemove (sampleCollaborators (Some 0) (Some 2) (Some 3) False)
        \<lparr>clientX = 5, clientY = 5\<rparr> (sampleController\<lparr>activeCorner := Some 2\<rparr>))
   \<and> activeItem (mousemove (sampleCollaborators (Some 0) (Some 2) (Some 3) False)
        \<lparr>clientX = 5, clientY = 5\<rparr> (sampleController\<lparr>activeCorner := Some 2\<rparr>)) = Obj 0
   \<and> activeCorner (mousemove (sampleCollaborators (Some 0) (Some 2) (Some 3) False)
        \<lparr>clientX = 5, clientY = 5\<rparr> (sampleController\<lparr>activeCorner := Some 2\<rparr>)) = None
   \<and> selectionExclusive (mousedown (sampleCollaborators (Some 0) (Some 2) (Some 3) False)
        \<lparr>clientX = 5, clientY = 5\<rparr> (sampleController\<lparr>activeCorner := Some 2\<rparr>))
   \<and> activeCorner (mousedown (sampleCollaborators (Some 0) (Some 2) (Some 3) False)
        \<lparr>clientX = 5, clientY = 5\<rparr> (sampleController\<lparr>activeCorner := Some 2\<rparr>)) = Some 2
   \<and> selectionExclusive (mouseup (sampleCollaborators (Some 0) (Some 2) (Some 3) False)
        (sampleController\<lparr>activeCorner := Some 2\<rparr>))
   \<and> selectionExclusive (mouseleave (sampleController\<lparr>activeCorner := Some 2\<rparr>))
   \<and> selectionExclusive (setMode DELETE (sampleController\<lparr>activeCorner := Some 2\<rparr>))"
proof -
  have h: "selectionExclusive (sampleController\<lparr>activeCorner := Some 2\<rparr>)"
    by (simp add: sampleController_eq selectionExclusive_index)
  have hit: "overlappedItem (sampleCollaborators (Some 0) (Some 2) (Some 3) False) m x y = Some 0"
    for m x y
    by (simp add: sampleCollaborators_def)
  have mv: "activeItem (mousemove (sampleCollaborators (Some 0) (Some 2) (Some 3) False)
        \<lparr>clientX = 5, clientY = 5\<rparr> (sampleController\<lparr>activeCorner := Some 2\<rparr>)) = Obj 0
     \<and> activeCorner (mousemove (sampleCollaborators (Some 0) (Some 2) (Some 3) False)
        \<lparr>clientX = 5, clientY = 5\<rparr> (sampleController\<lparr>activeCorner := Some 2\<rparr>)) = None"
    by (simp add: mousemove_hover updateObjectTarget_item [OF hit] activeItem_after_set
          sampleController_eq sampleModel_def getItems_def)
  have dn: "activeCorner (mousedown (sampleCollaborators (Some 0) (Some 2) (Some 3) False)
        \<lparr>clientX = 5, clientY = 5\<rparr> (sampleController\<lparr>activeCorner := Some 2\<rparr>)) = Some 2"
    by (simp add: mousedown_def Let_def view_draw_def sampleController_eq sampleModel_def
          getSelectedItem_def)
  show ?thesis
    using h mv dn selection_mutually_exclusive [of "sampleController\<lparr>activeCorner := Some 2\<rparr>" DELETE
        "sampleCollaborators (Some 0) (Some 2) (Some 3) False" "\<lparr>clientX = 5, clientY = 5\<rparr>"]
    by simp
qed

section \<open>Duplicate walls\<close>

lemma isDuplicate_sameCorners: "isDuplicate m a b \<longleftrightarrow> a \<noteq> b \<and> sameCorners m a b"
  by (auto simp: isDuplicate_def sameCorners_def)

lemma sameCorners_sym: "sameCorners m a b \<Longrightarrow> sameCorners m b a"
  by (auto simp: sameCorners_def)

lemma set_checkInner:
  "set (checkInner m w rest dups) = set dups \<union> {wc \<in> set rest. isDuplicate m w wc}"
  by (induction rest arbitrary: dups) auto

lemma set_checkOuter:
  "set (checkOuter m ws dups) =
     set dups \<union> {ws ! k | i k. i < k \<and> k < length ws \<and> isDuplicate m (ws ! i) (ws ! k)}"
proof (induction ws arbitrary: dups)
  case Nil
  then show ?case by simp
next
  case (Cons w rest)
  have split: "{(w # rest) ! k | i k. i < k \<and> k < length (w # rest)
                   \<and> isDuplicate m ((w # rest) ! i) ((w # rest) ! k)}
        = {wc \<in> set rest. isDuplicate m w wc}
          \<union> {rest ! k | i k. i < k \<and> k < length rest \<and> isDuplicate m (rest ! i) (rest ! k)}"
    (is "?L = ?A \<union> ?B")
  proof (intro set_eqI iffI)
    fix x assume "x \<in> ?L"
    then obtain i k where ik: "i < k" "k < length (w # rest)"
      "isDuplicate m ((w # rest) ! i) ((w # rest) ! k)" "x = (w # rest) ! k"
      by blast
    from ik(1) obtain k' where k': "k = Suc k'" by (cases k) auto
    show "x \<in> ?A \<union> ?B"
    proof (cases i)
      case 0
      then show ?thesis using ik k' by auto
    next
      case (Suc i')
      then have "i' < k'" "k' < length rest" "isDuplicate m (rest ! i') (rest ! k')" "x = rest ! k'"
        using ik k' by auto
      then show ?thesis by blast
    qed
  next
    fix x assume "x \<in> ?A \<union> ?B"
    then show "x \<in> ?L"
    proof
      assume "x \<in> ?A"
      then obtain k' where "k' < length rest" "rest ! k' = x" "isDuplicate m w x"
        by (auto simp: in_set_conv_nth)
      then have "0 < Suc k'" "Suc k' < length (w # rest)"
        "isDuplicate m ((w # rest) ! 0) ((w # rest) ! Suc k')" "x = (w # rest) ! Suc k'"
        by auto
      then show ?thesis by blast
    next
      assume "x \<in> ?B"
      then obtain i k where "i < k" "k < length rest" "isDuplicate m (rest ! i) (rest ! k)" "x = rest ! k"
        by blast
      then have "Suc i < Suc k" "Suc k < length (w # rest)"
        "isDuplicate m ((w # rest) ! Suc i) ((w # rest) ! Suc k)" "x = (w # rest) ! Suc k"
        by auto
      then show ?thesis by blast
    qed
  qed
  show ?case
    unfolding split by (simp add: Cons.IH set_checkInner Un_assoc)
qed

lemma removeEach_eq:
  "removeEach ds m = m\<lparr>walls := filter (\<lambda>w. w \<notin> set ds) (walls m)\<rparr>"
proof (induction ds arbitrary: m)
  case Nil
  then show ?case by simp
next
  case (Cons d ds)
  have "filter (\<lambda>w. w \<notin> set ds) (removeAll d xs) = filter (\<lambda>w. w \<notin> set (d # ds)) xs"
    for xs :: "Wall list"
    by (induction xs) auto
  then show ?case by (simp add: Cons.IH Wall_remove_def)
qed

lemma earlier_duplicate_iff:
  assumes "distinct ws" "k < length ws"
  shows "ws ! k \<in> {ws ! k' | i k'. i < k' \<and> k' < length ws \<and> isDuplicate m (ws ! i) (ws ! k')}
         \<longleftrightarrow> (\<exists>i<k. sameCorners m (ws ! i) (ws ! k))"
proof
  assume "ws ! k \<in> {ws ! k' | i k'. i < k' \<and> k' < length ws \<and> isDuplicate m (ws ! i) (ws ! k')}"
  then obtain i k' where ik: "i < k'" "k' < length ws" "isDuplicate m (ws ! i) (ws ! k')"
    "ws ! k = ws ! k'" by blast
  from assms ik(2,4) have "k = k'" by (simp add: nth_eq_iff_index_eq)
  with ik show "\<exists>i<k. sameCorners m (ws ! i) (ws ! k)"
    by (auto simp: isDuplicate_sameCorners)
next
  assume "\<exists>i<k. sameCorners m (ws ! i) (ws ! k)"
  then obtain i where i: "i < k" "sameCorners m (ws ! i) (ws ! k)" by blast
  with assms have "ws ! i \<noteq> ws ! k" by (simp add: nth_eq_iff_index_eq)
  with i have "isDuplicate m (ws ! i) (ws ! k)" by (simp add: isDuplicate_sameCorners)
  with i assms show "ws ! k \<in> {ws ! k' | i k'. i < k' \<and> k' < length ws \<and> isDuplicate m (ws ! i) (ws ! k')}"
    by blast
qed

lemma checkWallDuplicates_walls:
  assumes "distinct (getWalls (floorplan s))"
  shows "getWalls (floorplan (checkWallDuplicates s)) =
     map (\<lambda>k. getWalls (floorplan s) ! k)
       (filter (\<lambda>k. \<not> (\<exists>i<k. sameCorners (floorplan s) (getWalls (floorplan s) ! i)
                                    (getWalls (floorplan s) ! k)))
          [0..<length (getWalls (floorplan s))])"
proof -
  define ws where "ws = getWalls (floorplan s)"
  define m where "m = floorplan s"
  define D where "D = {ws ! k' | i k'. i < k' \<and> k' < length ws \<and> isDuplicate m (ws ! i) (ws ! k')}"
  have dist: "distinct ws" using assms by (simp add: ws_def)
  have "getWalls (floorplan (checkWallDuplicates s)) = filter (\<lambda>w. w \<notin> D) ws"
    by (simp add: checkWallDuplicates_def Let_def removeEach_eq set_checkOuter getWalls_def
          ws_def m_def D_def)
  also have "\<dots> = filter (\<lambda>w. w \<notin> D) (map (\<lambda>k. ws ! k) [0..<length ws])"
    by (simp add: map_nth)
  also have "\<dots> = map (\<lambda>k. ws ! k) (filter (\<lambda>k. ws ! k \<notin> D) [0..<length ws])"
    by (simp add: filter_map comp_def)
  also have "filter (\<lambda>k. ws ! k \<notin> D) [0..<length ws]
      = filter (\<lambda>k. \<not> (\<exists>i<k. sameCorners m (ws ! i) (ws ! k))) [0..<length ws]"
  proof (rule filter_cong [OF refl])
    fix k assume "k \<in> set [0..<length ws]"
    then have klt: "k < length ws" by simp
    show "(ws ! k \<notin> D) = (\<not> (\<exists>i<k. sameCorners m (ws ! i) (ws ! k)))"
      by (simp only: D_def earlier_duplicate_iff [OF dist klt])
  qed
  finally show ?thesis by (simp add: ws_def m_def)
qed

lemma checkWallDuplicates_floorplan:
  "floorplan (checkWallDuplicates s) =
     (floorplan s)\<lparr>walls := getWalls (floorplan (checkWallDuplicates s))\<rparr>"
  by (simp add: checkWallDuplicates_def Let_def removeEach_eq getWalls_def)

text \<open>
  Claim C4. For every list of pairwise different wall objects, \<open>checkWallDuplicates\<close>
  removes exactly the walls that connect the same two corners, in either direction, as a
  wall standing earlier in the list: the walls left are, in their order, those with no
  such earlier wall. Hence no two walls left connect the same two corners, the first
  wall of each corner pair is left, a wall whose corner pair no other wall connects is
  left, and nothing of the model but its wall list changes.
\<close>

theorem checkWallDuplicates_keeps_first:
  assumes "distinct (getWalls (floorplan s))"
  shows
   "let m = floorplan s; ws = getWalls m;
        m' = floorplan (checkWallDuplicates s); ws' = getWalls m'
    in ws' = map (\<lambda>k. ws ! k)
               (filter (\<lambda>k. \<not> (\<exists>i<k. sameCorners m (ws ! i) (ws ! k))) [0..<length ws])
     \<and> (\<forall>k<length ws. ws ! k \<in> set ws' \<longleftrightarrow> \<not> (\<exists>i<k. sameCorners m (ws ! i) (ws ! k)))
     \<and> (\<forall>a\<in>set ws'. \<forall>b\<in>set ws'. a \<noteq> b \<longrightarrow> \<not> sameCorners m a b)
     \<and> (\<forall>w\<in>set ws. (\<forall>v\<in>set ws. v \<noteq> w \<longrightarrow> \<not> sameCorners m v w) \<longrightarrow> w \<in> set ws')
     \<and> m' = m\<lparr>walls := ws'\<rparr>"
proof -
  define m where "m = floorplan s"
  define ws where "ws = getWalls m"
  define ws' where "ws' = getWalls (floorplan (checkWallDuplicates s))"
  define P where "P = (\<lambda>k. \<not> (\<exists>i<k. sameCorners m (ws ! i) (ws ! k)))"
  have dist: "distinct ws" using assms by (simp add: ws_def m_def)
  have eq: "ws' = map (\<lambda>k. ws ! k) (filter P [0..<length ws])"
    using checkWallDuplicates_walls [OF assms] by (simp add: ws'_def ws_def m_def P_def)
  have mem: "ws ! k \<in> set ws' \<longleftrightarrow> P k" if "k < length ws" for k
  proof
    assume "ws ! k \<in> set ws'"
    then obtain j where j: "j < length ws" "P j" "ws ! j = ws ! k"
      by (auto simp: eq)
    with dist that have "j = k" by (simp add: nth_eq_iff_index_eq)
    with j show "P k" by simp
  next
    assume "P k"
    with that show "ws ! k \<in> set ws'" by (auto simp: eq)
  qed
  have pair: "\<not> sameCorners m a b" if "a \<in> set ws'" "b \<in> set ws'" "a \<noteq> b" for a b
  proof
    assume same: "sameCorners m a b"
    from that obtain j k where jk: "j < length ws" "P j" "a = ws ! j" "k < length ws" "P k" "b = ws ! k"
      by (auto simp: eq)
    with that(3) have "j \<noteq> k" by auto
    then consider "j < k" | "k < j" by linarith
    then show False
    proof cases
      case 1
      with same jk show False by (auto simp: P_def)
    next
      case 2
      with sameCorners_sym [OF same] jk show False by (auto simp: P_def)
    qed
  qed
  have alone: "w \<in> set ws'" if "w \<in> set ws" "\<forall>v\<in>set ws. v \<noteq> w \<longrightarrow> \<not> sameCorners m v w" for w
  proof -
    from that(1) obtain k where k: "k < length ws" "w = ws ! k" by (auto simp: in_set_conv_nth)
    have "P k"
      unfolding P_def
    proof
      assume "\<exists>i<k. sameCorners m (ws ! i) (ws ! k)"
      then obtain i where i: "i < k" "sameCorners m (ws ! i) (ws ! k)" by blast
      with k dist have "ws ! i \<noteq> w" "ws ! i \<in> set ws" by (simp_all add: nth_eq_iff_index_eq)
      with that(2) i k show False by blast
    qed
    with mem k show ?thesis by simp
  qed
  have fp: "floorplan (checkWallDuplicates s) = m\<lparr>walls := ws'\<rparr>"
    using checkWallDuplicates_floorplan [of s] by (simp add: m_def ws'_def)
  show ?thesis
    unfolding Let_def
    using eq mem pair alone fp
    unfolding m_def [symmetric] ws_def [symmetric] ws'_def [symmetric] P_def
    by blast
qed

theorem checkWallDuplicates_keeps_first_witness:
  "distinct (getWalls (floorplan sampleController))
   \<and> getWalls (floorplan (checkWallDuplicates sampleController)) = [0, 2]"
proof -
  have h: "distinct (getWalls (floorplan sampleController))"
    by (simp add: sampleController_eq sampleModel_def getWalls_def)
  show ?thesis
    using h checkWallDuplicates_keeps_first [OF h]
    by (simp add: checkWallDuplicates_def Let_def sampleController_eq sampleModel_def
          getWalls_def isDuplicate_def getStart_def getEnd_def Wall_remove_def)
qed

section \<open>Pointer press in DELETE mode\<close>

lemma removeAll_filter_neq: "removeAll w xs = filter (\<lambda>v. v \<noteq> w) xs"
  by (induction xs) auto

text \<open>
  Claim C7. A press in DELETE mode: with an active corner, the corner is removed together
  with the walls that start or end at it; else with an active wall, the wall is removed;
  else with an active item, the item is removed. Each of the three removes nothing else,
  keeps the mode, and calls the debounced emitter once before the redraw. With none of
  the three active, no corner, wall or item is removed, the emitter is not called and the
  mode is MOVE afterwards.
\<close>

theorem mousedown_delete:
  assumes "mode s = DELETE"
  shows
   "let s' = mousedown ext e s; m = floorplan s; m' = floorplan s'
    in (\<forall>c. activeCorner s = Some c \<longrightarrow>
          m' = Corner_removeAll c m
          \<and> c \<notin> set (corners m')
          \<and> (\<forall>w\<in>set (getWalls m'). getStart m' w \<noteq> c \<and> getEnd m' w \<noteq> c)
          \<and> getWalls m' = filter (\<lambda>w. getStart m w \<noteq> c \<and> getEnd m w \<noteq> c) (getWalls m)
          \<and> getItems m' = getItems m
          \<and> mode s' = DELETE
          \<and> effects s' = effects s @ [EmitChanges, ViewDraw])
     \<and> (activeCorner s = None \<longrightarrow>
          (\<forall>w. activeWall s = Some w \<longrightarrow>
             m' = Wall_remove w m
             \<and> w \<notin> set (getWalls m')
             \<and> getWalls m' = filter (\<lambda>v. v \<noteq> w) (getWalls m)
             \<and> corners m' = corners m \<and> getItems m' = getItems m
             \<and> mode s' = DELETE
             \<and> effects s' = effects s @ [EmitChanges, ViewDraw]))
     \<and> (activeCorner s = None \<and> activeWall s = None \<longrightarrow>
          (\<forall>i. activeItem s = Obj i \<longrightarrow>
             m' = Item_remove i m
             \<and> i \<notin> set (getItems m')
             \<and> getItems m' = filter (\<lambda>j. j \<noteq> i) (getItems m)
             \<and> corners m' = corners m \<and> getWalls m' = getWalls m
             \<and> mode s' = DELETE
             \<and> effects s' = effects s @ [EmitChanges, ViewDraw]))
     \<and> (activeCorner s = None \<and> activeWall s = None \<and> \<not> truthy (activeItem s) \<longrightarrow>
          corners m' = corners m \<and> getWalls m' = getWalls m \<and> getItems m' = getItems m
          \<and> mode s' = MOVE
          \<and> effects s' = effects s @ [OnModeChangeFire MOVE, ViewDraw])"
proof -
  define s1 where "s1 = s\<lparr>mouseDown := True, mouseMoved := False,
                 lastX := mouseX s, lastY := mouseY s,
                 lastRawX := clientX e, lastRawY := clientY e\<rparr>"
  have s1: "mode s1 = DELETE" "activeCorner s1 = activeCorner s" "activeWall s1 = activeWall s"
    "activeItem s1 = activeItem s" "floorplan s1 = floorplan s" "effects s1 = effects s"
    using assms by (simp_all add: s1_def)
  have md: "mousedown ext e s =
      view_draw (case activeCorner s of
          Some c \<Rightarrow> emitChanges (s1\<lparr>floorplan := Corner_removeAll c (floorplan s)\<rparr>)
        | None \<Rightarrow>
           (case activeWall s of
              Some w \<Rightarrow> emitChanges (s1\<lparr>floorplan := Wall_remove w (floorplan s)\<rparr>)
            | None \<Rightarrow>
               (case activeItem s of
                  Obj i \<Rightarrow> emitChanges (s1\<lparr>floorplan := Item_remove i (floorplan s)\<rparr>)
                | _ \<Rightarrow> setMode MOVE s1)))"
    using s1 by (simp add: mousedown_def Let_def s1_def [symmetric]
          cong: option.case_cong ItemRef.case_cong)
  have corner: ?thesis if "activeCorner s = Some c" for c
    using that s1 unfolding Let_def md
    by (simp add: view_draw_def emitChanges_def effect_def Corner_removeAll_def
          getWalls_def getStart_def getEnd_def getItems_def)
  have wall: ?thesis if "activeCorner s = None" "activeWall s = Some w" for w
    using that s1 unfolding Let_def md
    by (simp add: view_draw_def emitChanges_def effect_def Wall_remove_def
          getWalls_def getItems_def removeAll_filter_neq)
  have item: ?thesis if "activeCorner s = None" "activeWall s = None" "activeItem s = Obj i" for i
    using that s1 unfolding Let_def md
    by (simp add: view_draw_def emitChanges_def effect_def Item_remove_def
          getWalls_def getItems_def removeAll_filter_neq)
  have none: ?thesis if "activeCorner s = None" "activeWall s = None" "\<not> truthy (activeItem s)"
    using that s1 unfolding Let_def md
    by (cases "activeItem s")
       (simp_all add: view_draw_def effect_def setMode_eq setSelectedItem_def
          getWalls_def getItems_def activationEffects_None)
  show ?thesis
  proof (cases "activeCorner s")
    case (Some c)
    then show ?thesis by (rule corner)
  next
    case None
    note nc = this
    show ?thesis
    proof (cases "activeWall s")
      case (Some w)
      with nc show ?thesis by (rule wall)
    next
      case None
      note nw = this
      show ?thesis
      proof (cases "activeItem s")
        case (Obj i)
        with nc nw show ?thesis by (rule item)
      next
        case Null
        with nc nw show ?thesis by (intro none) simp_all
      next
        case Undefined
        with nc nw show ?thesis by (intro none) simp_all
      qed
    qed
  qed
qed

theorem mousedown_delete_witness:
  "mode (sampleController\<lparr>mode := DELETE, activeCorner := Some 2\<rparr>) = DELETE
   \<and> corners (floorplan (mousedown (sampleCollaborators None None None False)
        \<lparr>clientX = 10, clientY = 10\<rparr>
        (sampleController\<lparr>mode := DELETE, activeCorner := Some 2\<rparr>))) = [0, 1]
   \<and> getWalls (floorplan (mousedown (sampleCollaborators None None None False)
        \<lparr>clientX = 10, clientY = 10\<rparr>
        (sampleController\<lparr>mode := DELETE, activeCorner := Some 2\<rparr>))) = [0, 1, 3]
   \<and> effects (mousedown (sampleCollaborators None None None False)
        \<lparr>clientX = 10, clientY = 10\<rparr>
        (sampleController\<lparr>mode := DELETE, activeCorner := Some 2\<rparr>))
       = [OnModeChangeFire MOVE, EmitChanges, ViewDraw]
   \<and> mode (mousedown (sampleCollaborators None None None False)
        \<lparr>clientX = 10, clientY = 10\<rparr> (sampleController\<lparr>mode := DELETE\<rparr>)) = MOVE
   \<and> getWalls (floorplan (mousedown (sampleCollaborators None None None False)
        \<lparr>clientX = 10, clientY = 10\<rparr> (sampleController\<lparr>mode := DELETE\<rparr>))) = [0, 1, 2, 3]"
proof -
  have h1: "mode (sampleController\<lparr>mode := DELETE, activeCorner := Some 2\<rparr>) = DELETE"
    and h2: "mode (sampleController\<lparr>mode := DELETE\<rparr>) = DELETE"
    by simp_all
  show ?thesis
    using h1
      mousedown_delete [OF h1, of "sampleCollaborators None None None False"
        "\<lparr>clientX = 10, clientY = 10\<rparr>"]
      mousedown_delete [OF h2, of "sampleCollaborators None None None False"
        "\<lparr>clientX = 10, clientY = 10\<rparr>"]
    by (simp add: Let_def sampleController_eq sampleModel_def Corner_removeAll_def
          getWalls_def getStart_def getEnd_def activeItem_def)
qed

section \<open>Mode transitions\<close>

text \<open>
  The transitions other than the one on release: \<open>setMode\<close> itself (above), the Escape
  key and the fallback of a press in DELETE mode end with every active selection, the
  selected item and the last placed corner \<open>null\<close>. The transition on a release in DRAW
  mode after a merge ends with the selections and the selected item \<open>null\<close> and with a
  last placed corner.
\<close>

lemma checkWallDuplicates_selectedItem [simp]:
  "selectedItem (floorplan (checkWallDuplicates s)) = selectedItem (floorplan s)"
  by (simp add: checkWallDuplicates_def Let_def removeEach_eq)

lemma drawing_after_merge:
  assumes "lastNode s \<noteq> None"
    and "fst (Corner_mergeWithIntersected ext
           (fst (newCorner ext (targetX s) (targetY s) (floorplan s)))
           (case lastNode s of
              Some n \<Rightarrow> newWall ext n (fst (newCorner ext (targetX s) (targetY s) (floorplan s)))
                          (snd (newCorner ext (targetX s) (targetY s) (floorplan s)))
            | None \<Rightarrow> snd (newCorner ext (targetX s) (targetY s) (floorplan s))))"
  shows "activeCorner (drawing ext s) = None \<and> activeWall (drawing ext s) = None
     \<and> activeItem (drawing ext s) = Null
     \<and> getSelectedItem (floorplan (drawing ext s)) = None
     \<and> lastNode (drawing ext s) \<noteq> None"
  using assms
  by (simp add: drawing_def Let_def case_prod_beta view_draw_def emitChanges_def setMode_eq
        activeItem_Null_iff getSelectedItem_def setSelectedItem_def)

lemma escapeKey_clears:
  "lastNode (escapeKey s) = None \<and> activeCorner (escapeKey s) = None
   \<and> activeWall (escapeKey s) = None \<and> activeItem (escapeKey s) = Null
   \<and> getSelectedItem (floorplan (escapeKey s)) = None \<and> mode (escapeKey s) = MOVE"
  by (simp add: escapeKey_def setMode_eq getSelectedItem_def setSelectedItem_def
        activeItem_Null_iff)

lemma mousedown_fallback_clears:
  assumes "mode s = DELETE" "activeCorner s = None" "activeWall s = None"
    "\<not> truthy (activeItem s)"
  shows "lastNode (mousedown ext e s) = None \<and> activeCorner (mousedown ext e s) = None
     \<and> activeWall (mousedown ext e s) = None \<and> activeItem (mousedown ext e s) = Null
     \<and> getSelectedItem (floorplan (mousedown ext e s)) = None \<and> mode (mousedown ext e s) = MOVE"
proof -
  have "mousedown ext e s =
      view_draw (setMode MOVE (s\<lparr>mouseDown := True, mouseMoved := False,
                 lastX := mouseX s, lastY := mouseY s,
                 lastRawX := clientX e, lastRawY := clientY e\<rparr>))"
    using assms by (cases "activeItem s") (simp_all add: mousedown_def Let_def)
  then show ?thesis
    by (simp add: view_draw_def setMode_eq getSelectedItem_def setSelectedItem_def effect_def
          activeItem_Null_iff)
qed

lemma drawing_lastNode:
  "lastNode (drawing ext s) = Some (fst (newCorner ext (targetX s) (targetY s) (floorplan s)))"
  by (simp add: drawing_def Let_def case_prod_beta view_draw_def emitChanges_def)

lemma drawing_mode_after_merge:
  assumes "lastNode s \<noteq> None"
    and "fst (Corner_mergeWithIntersected ext
           (fst (newCorner ext (targetX s) (targetY s) (floorplan s)))
           (case lastNode s of
              Some n \<Rightarrow> newWall ext n (fst (newCorner ext (targetX s) (targetY s) (floorplan s)))
                          (snd (newCorner ext (targetX s) (targetY s) (floorplan s)))
            | None \<Rightarrow> snd (newCorner ext (targetX s) (targetY s) (floorplan s))))"
  shows "mode (drawing ext s) = MOVE"
  using assms
  by (simp add: drawing_def Let_def case_prod_beta view_draw_def emitChanges_def setMode_eq)

text \<open>
  Claim C6, at the input where the code departs from it. A release in DRAW mode with no
  move since the press, a last placed corner and a merge of the new corner: the handler
  switches to MOVE mode, and at its end the last placed corner is the corner just
  created (reference 3 in the sample floorplan), not \<open>null\<close>.
\<close>

theorem mouseup_merge_keeps_lastNode:
  "mode (mouseup (sampleCollaborators None None None True)
      (sampleController\<lparr>mode := DRAW, lastNode := Some 1\<rparr>)) = MOVE
   \<and> lastNode (mouseup (sampleCollaborators None None None True)
      (sampleController\<lparr>mode := DRAW, lastNode := Some 1\<rparr>)) = Some 3"
  by (simp add: mouseup_def Let_def releaseSelected_def getSelectedItem_def
        sampleController_eq sampleModel_def drawing_lastNode drawing_mode_after_merge
        sampleCollaborators_def)

section \<open>The debounced emitter: one notification for a burst of calls\<close>

lemma trigger_not_due:
  assumes "timer d = None \<or> (\<exists>deadline. timer d = Some deadline \<and> t < deadline)"
  shows "trigger wait t d = d\<lparr>timer := Some (t + wait)\<rparr>"
  using assms by (auto simp: trigger_def elapse_def)

lemma triggerAll_rapid:
  assumes "withinQuietPeriod wait (t # ts)"
    and "timer d = None \<or> (\<exists>deadline. timer d = Some deadline \<and> t < deadline)"
  shows "triggerAll wait (t # ts) d = d\<lparr>timer := Some (last (t # ts) + wait)\<rparr>"
  using assms
proof (induction ts arbitrary: t d)
  case Nil
  then show ?case by (simp add: trigger_not_due)
next
  case (Cons u ts)
  from Cons.prems(1) have u: "t \<le> u" "u < t + wait" "withinQuietPeriod wait (u # ts)"
    by simp_all
  have step: "trigger wait t d = d\<lparr>timer := Some (t + wait)\<rparr>"
    using Cons.prems(2) by (rule trigger_not_due)
  have "triggerAll wait (u # ts) (d\<lparr>timer := Some (t + wait)\<rparr>)
      = (d\<lparr>timer := Some (t + wait)\<rparr>)\<lparr>timer := Some (last (u # ts) + wait)\<rparr>"
    using u(2) by (intro Cons.IH [OF u(3)]) simp
  then show ?case using step by simp
qed

lemma take_rapid: "withinQuietPeriod wait ts \<Longrightarrow> withinQuietPeriod wait (take k ts)"
proof (induction wait ts arbitrary: k rule: withinQuietPeriod.induct)
  case (1 wait)
  then show ?case by simp
next
  case (2 wait t)
  then show ?case by (cases k) simp_all
next
  case (3 wait t u ts)
  show ?case
  proof (cases k)
    case 0
    then show ?thesis by simp
  next
    case (Suc j)
    from 3 have ih: "withinQuietPeriod wait (take j (u # ts))" by simp
    show ?thesis
    proof (cases j)
      case 0
      with Suc show ?thesis by simp
    next
      case (Suc i)
      with ih 3(2) \<open>k = Suc j\<close> show ?thesis by simp
    qed
  qed
qed

text \<open>
  Claim C9. For every burst of calls of the debounced emitter, each less than the quiet
  interval after the one before, starting with no timer pending: after every call of the
  burst exactly one timer is pending, the one armed by that call (the timer of the call
  before is gone), and nothing has been notified; until the quiet interval after the
  last call has elapsed nothing is notified; from then on exactly one notification has
  been made, at that time, and no timer is pending.
\<close>

theorem debounce_single_notification:
  assumes "ts \<noteq> []" and "withinQuietPeriod wait ts"
  shows
   "let d = triggerAll wait ts idle; due = last ts + wait
    in timer d = Some due \<and> notifications d = []
     \<and> (\<forall>k. 0 < k \<and> k \<le> length ts \<longrightarrow>
           timer (triggerAll wait (take k ts) idle) = Some (ts ! (k - 1) + wait)
           \<and> notifications (triggerAll wait (take k ts) idle) = [])
     \<and> (\<forall>now. now < due \<longrightarrow>
           notifications (elapse now d) = [] \<and> timer (elapse now d) = Some due)
     \<and> (\<forall>now. due \<le> now \<longrightarrow>
           notifications (elapse now d) = [due] \<and> timer (elapse now d) = None)"
proof -
  have run: "triggerAll wait us idle = idle\<lparr>timer := Some (last us + wait)\<rparr>"
    if "us \<noteq> []" "withinQuietPeriod wait us" for us
  proof -
    from that(1) obtain t rest where us: "us = t # rest" by (cases us) auto
    show ?thesis
      using triggerAll_rapid [of wait t rest idle] that(2)
      by (simp add: us idle_def)
  qed
  have prefix: "timer (triggerAll wait (take k ts) idle) = Some (ts ! (k - 1) + wait)
           \<and> notifications (triggerAll wait (take k ts) idle) = []"
    if "0 < k" "k \<le> length ts" for k
  proof -
    have ne: "take k ts \<noteq> []" using that assms(1) by (cases ts) auto
    have len: "length (take k ts) = k" using that by simp
    have "last (take k ts) = take k ts ! (k - 1)"
      using last_conv_nth [OF ne] by (simp only: len)
    also have "\<dots> = ts ! (k - 1)"
      using that by (intro nth_take) simp
    finally have "last (take k ts) = ts ! (k - 1)" .
    then show ?thesis
      using run [OF ne take_rapid [OF assms(2)]] by (simp add: idle_def)
  qed
  show ?thesis
    unfolding Let_def run [OF assms]
    using prefix by (simp add: elapse_def idle_def)
qed

theorem debounce_single_notification_witness:
  "withinQuietPeriod 100 [0, 30, 60]
   \<and> timer (triggerAll 100 [0, 30, 60] idle) = Some 160
   \<and> notifications (elapse 159 (triggerAll 100 [0, 30, 60] idle)) = []
   \<and> notifications (elapse 160 (triggerAll 100 [0, 30, 60] idle)) = [160]
   \<and> notifications (elapse 500 (triggerAll 100 [0, 30, 60] idle)) = [160]
   \<and> notifications (elapse 500 (triggerAll 100 [0, 30, 200] idle)) = [130, 300]"
proof -
  have h1: "[0, 30, 60] \<noteq> ([] :: nat list)" and h2: "withinQuietPeriod 100 [0, 30, 60]"
    by simp_all
  show ?thesis
    using h2 debounce_single_notification [OF h1 h2]
    by (simp add: Let_def trigger_def elapse_def idle_def)
qed

end
